theory Spec2Isabelle
  imports Complex_Main "HOL-Library.Word" "HOL-Library.Monad_Syntax"
begin

unbundle bit_operations_syntax

section \<open>Luma helmet firmware: data model\<close>

text \<open>
  The embedding follows \<^verbatim>\<open>IoT/Luma App/esp32_firmware/src/main.cpp\<close>, its
  \<^verbatim>\<open>include/classifier.h\<close>, and
  \<^verbatim>\<open>Sensing/IoT/Luma App/esp32_firmware/include/feature_extraction.h\<close>.

  \<^item> \<^verbatim>\<open>unsigned long\<close> is 32 bits on the ESP32-C3, so every \<^verbatim>\<open>millis()\<close> value and
    every time stamp is a \<open>32 word\<close>: subtraction wraps, comparison is unsigned.
  \<^item> A C \<^verbatim>\<open>float\<close> is a real number in the control model (rounding, infinities and
    NaN are not represented). The wire format of section "BLE payloads" works on the
    32-bit object representation instead, because \<^verbatim>\<open>memcpy\<close> copies bits, and the
    statistics helpers behind the \<^verbatim>\<open>std == 0\<close> test are embedded a second time in
    IEEE 754 binary32, because there the rounding decides the branch.
  \<^item> A C array is a function from the index; the feature vector is a list.
  \<^item> Every \<^verbatim>\<open>millis()\<close> read and every sensor read is an input of the function that
    performs it.
  \<^item> The pixel frame sent to the LED strip is left out; the variables that decide the
    pattern and its animation step are kept.
\<close>

type_synonym ms = "32 word"

definition IMU_SAMPLE_RATE :: nat where [simp]: "IMU_SAMPLE_RATE = 50"
definition EVENT_WINDOW_SIZE :: nat where [simp]: "EVENT_WINDOW_SIZE = 150"
definition SAMPLE_INTERVAL_MS :: ms where [simp]: "SAMPLE_INTERVAL_MS = 20"
definition LED_COUNT :: int where [simp]: "LED_COUNT = 12"

definition LOCAL_BRAKE_COOLDOWN_MS :: ms where [simp]: "LOCAL_BRAKE_COOLDOWN_MS = 400"
definition LOCAL_CRASH_COOLDOWN_MS :: ms where [simp]: "LOCAL_CRASH_COOLDOWN_MS = 3000"
definition ML_BRAKE_COOLDOWN_MS :: ms where [simp]: "ML_BRAKE_COOLDOWN_MS = 1500"
definition ML_CRASH_COOLDOWN_MS :: ms where [simp]: "ML_CRASH_COOLDOWN_MS = 5000"
definition ML_ATTEMPT_COOLDOWN_MS :: ms where [simp]: "ML_ATTEMPT_COOLDOWN_MS = 800"

definition N_FEATURES :: nat where [simp]: "N_FEATURES = 61"

definition CLASS_BRAKE :: int where [simp]: "CLASS_BRAKE = 0"
definition CLASS_BUMP :: int where [simp]: "CLASS_BUMP = 1"
definition CLASS_CRASH :: int where [simp]: "CLASS_CRASH = 2"
definition CLASS_NORMAL :: int where [simp]: "CLASS_NORMAL = 3"
definition CLASS_TURN :: int where [simp]: "CLASS_TURN = 4"

datatype LEDPattern =
    LED_OFF
  | LED_BRAKE
  | LED_CRASH
  | LED_TURN_LEFT
  | LED_TURN_RIGHT
  | LED_PARTY
  | LED_CONNECTED_GREEN
  | LED_ARMED_RED
  | LED_IDLE

record IMUData =
  accel_x :: real
  accel_y :: real
  accel_z :: real
  gyro_x :: real
  gyro_y :: real
  gyro_z :: real
  accel_mag :: real
  timestamp :: ms

text \<open>
  The call site that produced an event notification. It is a history variable of the
  model (the frame on the wire does not carry it, and no branch reads it): it lets a
  theorem count the notifications of one detection path.
\<close>

datatype origin = Local | Model

type_synonym event = "origin \<times> int \<times> real"

text \<open>
  The file-scope variables of \<^verbatim>\<open>main.cpp\<close>, the function-local static
  \<^verbatim>\<open>lastMagLocal\<close> of \<^verbatim>\<open>loop\<close>, and three history variables: \<open>events\<close> and
  \<open>telemetry\<close> list what was handed to the two notify characteristics,
  \<open>samplesStored\<close> counts the writes to \<^verbatim>\<open>imuBuffer\<close> and \<open>classifications\<close> the calls
  of \<^verbatim>\<open>classifyAndRespondToEvent\<close>.
\<close>

record state =
  deviceConnected :: bool
  imuBuffer :: "nat \<Rightarrow> IMUData"
  bufferIndex :: nat
  bufferFull :: bool
  lastAccelMag :: real
  lastMagLocal :: real
  lastLocalBrakeMs :: ms
  lastLocalCrashMs :: ms
  lastMLBrakeMs :: ms
  lastMLCrashMs :: ms
  lastMLAttemptMs :: ms
  currentPattern :: LEDPattern
  savedPattern :: LEDPattern
  lastLEDUpdate :: ms
  ledAnimationStep :: int
  brakeEndTime :: ms
  connectGreenUntil :: ms
  lastSampleTime :: ms
  events :: "event list"
  telemetry :: "IMUData list"
  samplesStored :: nat
  classifications :: nat

definition zeroIMU :: IMUData where
  "zeroIMU = \<lparr>accel_x = 0, accel_y = 0, accel_z = 0, gyro_x = 0, gyro_y = 0, gyro_z = 0,
     accel_mag = 0, timestamp = 0\<rparr>"

text \<open>The initial values of the globals; \<^verbatim>\<open>setup\<close> changes none of them.\<close>

definition init :: state where
  "init = \<lparr>deviceConnected = False, imuBuffer = (\<lambda>_. zeroIMU), bufferIndex = 0,
     bufferFull = False, lastAccelMag = 1, lastMagLocal = 1, lastLocalBrakeMs = 0,
     lastLocalCrashMs = 0, lastMLBrakeMs = 0, lastMLCrashMs = 0, lastMLAttemptMs = 0,
     currentPattern = LED_IDLE, savedPattern = LED_IDLE, lastLEDUpdate = 0,
     ledAnimationStep = 0, brakeEndTime = 0, connectGreenUntil = 0, lastSampleTime = 0,
     events = [], telemetry = [], samplesStored = 0, classifications = 0\<rparr>"

section \<open>BLE callbacks\<close>

text \<open>\<^verbatim>\<open>ServerCallbacks::onConnect\<close>; \<open>t\<close> is the value \<^verbatim>\<open>millis()\<close> returns there.\<close>

definition onConnect :: "ms \<Rightarrow> state \<Rightarrow> state" where
  "onConnect t s = s\<lparr>deviceConnected := True, currentPattern := LED_CONNECTED_GREEN,
     connectGreenUntil := t + 3000, ledAnimationStep := 0\<rparr>"

definition onDisconnect :: "state \<Rightarrow> state" where
  "onDisconnect s = s\<lparr>deviceConnected := False, currentPattern := LED_IDLE\<rparr>"

text \<open>\<^verbatim>\<open>CommandCallbacks::onWrite\<close>; \<open>v\<close> is the value written to the characteristic.\<close>

definition onWrite :: "string \<Rightarrow> state \<Rightarrow> state" where
  "onWrite v s =
     (if length v > 0 then
        (if v = ''LEFT_ON'' then s\<lparr>currentPattern := LED_TURN_LEFT, ledAnimationStep := 0\<rparr>
         else if v = ''RIGHT_ON'' then s\<lparr>currentPattern := LED_TURN_RIGHT, ledAnimationStep := 0\<rparr>
         else if v = ''TURN_OFF'' then
           s\<lparr>currentPattern := (if deviceConnected s then LED_ARMED_RED else LED_IDLE)\<rparr>
         else if v = ''PARTY_ON'' then s\<lparr>currentPattern := LED_PARTY, ledAnimationStep := 0\<rparr>
         else if v = ''PARTY_OFF'' then
           s\<lparr>currentPattern := (if deviceConnected s then LED_ARMED_RED else LED_IDLE)\<rparr>
         else if v = ''CRASH_DISMISS'' then
           s\<lparr>currentPattern := (if deviceConnected s then LED_ARMED_RED else LED_IDLE)\<rparr>
         else s)
      else s)"

section \<open>Notifications\<close>

definition sendIMUData :: "IMUData \<Rightarrow> state \<Rightarrow> state" where
  "sendIMUData d s =
     (if \<not> deviceConnected s then s else s\<lparr>telemetry := telemetry s @ [d]\<rparr>)"

definition sendEventNotification :: "origin \<Rightarrow> int \<Rightarrow> real \<Rightarrow> state \<Rightarrow> state" where
  "sendEventNotification og cls conf s =
     (if \<not> deviceConnected s then s else s\<lparr>events := events s @ [(og, cls, conf)]\<rparr>)"

definition confFromJerk :: "real \<Rightarrow> real \<Rightarrow> real \<Rightarrow> real" where
  "confFromJerk jerk_gps lo hi =
     (let t = (jerk_gps - lo) / (hi - lo);
          t = (if t < 0 then 0 else t);
          t = (if t > 1 then 1 else t)
      in 0.2 + 0.8 * t)"

definition reportLocalBrake :: "real \<Rightarrow> state \<Rightarrow> state" where
  "reportLocalBrake jerk_gps s =
     sendEventNotification Local CLASS_BRAKE (confFromJerk jerk_gps 14 30) s"

definition reportLocalCrash :: "real \<Rightarrow> real \<Rightarrow> state \<Rightarrow> state" where
  "reportLocalCrash jerk_gps mag s =
     (let c1 = confFromJerk jerk_gps 40 90;
          c2 = confFromJerk mag 3 5;
          c = (if c1 > c2 then c1 else c2)
      in sendEventNotification Local CLASS_CRASH c s)"

section \<open>LED state machine\<close>

text \<open>
  \<^verbatim>\<open>updateLEDs\<close>; \<open>now\<close> is its \<^verbatim>\<open>millis()\<close> read. The function is three blocks
  in sequence: the brake time-out, the connected-green time-out, and the \<^verbatim>\<open>switch\<close>
  that advances the animation of the pattern current after them. \<^verbatim>\<open>half\<close> is
  \<^verbatim>\<open>LED_COUNT / 2\<close>.
\<close>

definition brakeTimeout :: "ms \<Rightarrow> state \<Rightarrow> state" where
  "brakeTimeout now s =
     (if currentPattern s = LED_BRAKE \<and> brakeEndTime s \<noteq> 0 \<and> now > brakeEndTime s
      then s\<lparr>currentPattern := savedPattern s, brakeEndTime := 0\<rparr> else s)"

definition greenTimeout :: "ms \<Rightarrow> state \<Rightarrow> state" where
  "greenTimeout now s =
     (if currentPattern s = LED_CONNECTED_GREEN \<and> now > connectGreenUntil s
      then s\<lparr>currentPattern := LED_ARMED_RED, ledAnimationStep := 0, lastLEDUpdate := 0\<rparr>
      else s)"

definition advanceAnimation :: "ms \<Rightarrow> state \<Rightarrow> state" where
  "advanceAnimation now s =
     (let half = LED_COUNT div 2;
          step = ledAnimationStep s;
          due = (\<lambda>iv. now - lastLEDUpdate s > iv)
      in case currentPattern s of
           LED_OFF \<Rightarrow> s
         | LED_CONNECTED_GREEN \<Rightarrow>
             (if due 30 then s\<lparr>lastLEDUpdate := now, ledAnimationStep := step + 1\<rparr> else s)
         | LED_ARMED_RED \<Rightarrow> s
         | LED_BRAKE \<Rightarrow>
             (if due 40 then s\<lparr>lastLEDUpdate := now,
                 ledAnimationStep := (if step + 1 > half then 0 else step + 1)\<rparr> else s)
         | LED_CRASH \<Rightarrow>
             (if due 100 then s\<lparr>lastLEDUpdate := now,
                 ledAnimationStep := (if step = 0 then 1 else 0)\<rparr> else s)
         | LED_TURN_LEFT \<Rightarrow>
             (if due 70 then s\<lparr>lastLEDUpdate := now,
                 ledAnimationStep := (if step + 1 > half + 2 then 0 else step + 1)\<rparr> else s)
         | LED_TURN_RIGHT \<Rightarrow>
             (if due 70 then s\<lparr>lastLEDUpdate := now,
                 ledAnimationStep := (if step + 1 > half + 2 then 0 else step + 1)\<rparr> else s)
         | LED_PARTY \<Rightarrow>
             (if due 20 then s\<lparr>lastLEDUpdate := now,
                 ledAnimationStep := (step + 1) mod 256\<rparr> else s)
         | LED_IDLE \<Rightarrow>
             (if due 50 then s\<lparr>lastLEDUpdate := now, ledAnimationStep := step + 1\<rparr> else s))"

definition updateLEDs :: "ms \<Rightarrow> state \<Rightarrow> state" where
  "updateLEDs now s = advanceAnimation now (greenTimeout now (brakeTimeout now s))"

text \<open>\<^verbatim>\<open>fireBrakePattern(ms)\<close>; \<open>t\<close> is its \<^verbatim>\<open>millis()\<close> read.\<close>

definition fireBrakePattern :: "ms \<Rightarrow> ms \<Rightarrow> state \<Rightarrow> state" where
  "fireBrakePattern t dur s =
     s\<lparr>savedPattern := (if deviceConnected s then LED_ARMED_RED else LED_IDLE),
       currentPattern := LED_BRAKE, brakeEndTime := t + dur, ledAnimationStep := 0,
       lastLEDUpdate := 0\<rparr>"

definition fireCrashPattern :: "state \<Rightarrow> state" where
  "fireCrashPattern s =
     s\<lparr>savedPattern := (if deviceConnected s then LED_ARMED_RED else LED_IDLE),
       currentPattern := LED_CRASH, ledAnimationStep := 0, lastLEDUpdate := 0\<rparr>"

section \<open>Feature extraction\<close>

text \<open>
  The helpers of \<^verbatim>\<open>feature_extraction.h\<close>. \<open>data\<close> is the array and \<open>sz\<close> (the
  source's \<^verbatim>\<open>size\<close>) the number of elements the loop visits, in index order.
  \<^verbatim>\<open>sum / size\<close> is the real quotient: every call in \<^verbatim>\<open>extractFeatures\<close> passes a
  positive size. Sums, products and roots are exact here, where the source rounds each
  operation to binary32: these definitions give the shape of the computation (which
  values are written, in which order, under which guards), not its last digits. The
  digits are the subject of section "The statistics helpers in binary32".
\<close>

definition calculateMean :: "real list \<Rightarrow> nat \<Rightarrow> real" where
  "calculateMean data sz = fold (\<lambda>x sum. sum + x) (take sz data) 0 / real sz"

definition calculateStd :: "real list \<Rightarrow> nat \<Rightarrow> real \<Rightarrow> real" where
  "calculateStd data sz mean =
     sqrt (fold (\<lambda>x sum. sum + (x - mean) * (x - mean)) (take sz data) 0 / real sz)"

text \<open>
  The division by the run-time value \<^verbatim>\<open>std\<close> is the one division of the extractor
  whose divisor can be zero. It is modelled as a checked operation: \<open>None\<close> stands for
  a division executed with a zero divisor (an infinity or a NaN in C).
\<close>

definition fdiv :: "real \<Rightarrow> real \<Rightarrow> real option" where
  "fdiv a b = (if b = 0 then None else Some (a / b))"

text \<open>The loop of \<^verbatim>\<open>calculateSkewness\<close>, with the running \<^verbatim>\<open>sum\<close> as \<open>s\<close>.\<close>

fun skewnessLoop :: "real list \<Rightarrow> real \<Rightarrow> real \<Rightarrow> real \<Rightarrow> real option" where
  "skewnessLoop [] mean std s = Some s"
| "skewnessLoop (x # xs) mean std s =
     (case fdiv (x - mean) std of
        None \<Rightarrow> None
      | Some diff \<Rightarrow> skewnessLoop xs mean std (s + diff * diff * diff))"

definition calculateSkewness :: "real list \<Rightarrow> nat \<Rightarrow> real \<Rightarrow> real \<Rightarrow> real option" where
  "calculateSkewness data sz mean std =
     (if std = 0 then Some 0
      else case skewnessLoop (take sz data) mean std 0 of
             None \<Rightarrow> None
           | Some sm \<Rightarrow> Some (sm / real sz))"

fun kurtosisLoop :: "real list \<Rightarrow> real \<Rightarrow> real \<Rightarrow> real \<Rightarrow> real option" where
  "kurtosisLoop [] mean std s = Some s"
| "kurtosisLoop (x # xs) mean std s =
     (case fdiv (x - mean) std of
        None \<Rightarrow> None
      | Some diff \<Rightarrow> kurtosisLoop xs mean std (s + diff * diff * diff * diff))"

definition calculateKurtosis :: "real list \<Rightarrow> nat \<Rightarrow> real \<Rightarrow> real \<Rightarrow> real option" where
  "calculateKurtosis data sz mean std =
     (if std = 0 then Some 0
      else case kurtosisLoop (take sz data) mean std 0 of
             None \<Rightarrow> None
           | Some sm \<Rightarrow> Some (sm / real sz - 3))"

definition calculateZeroCrossingRate :: "real list \<Rightarrow> nat \<Rightarrow> real" where
  "calculateZeroCrossingRate data sz =
     (let mean = calculateMean data sz;
          crossings = fold (\<lambda>i c. if (data ! i - mean) * (data ! (i - 1) - mean) < 0
                                   then c + 1 else c) [1..<sz] (0::int)
      in real_of_int crossings / (2 * real sz))"

text \<open>
  The running maximum and minimum that \<^verbatim>\<open>extractFeatures\<close> computes in line for
  every series: start from element 0, visit elements \<open>1 .. size - 1\<close>.
\<close>

definition seriesMax :: "real list \<Rightarrow> real" where
  "seriesMax xs = fold (\<lambda>x m. if x > m then x else m) (tl xs) (hd xs)"

definition seriesMin :: "real list \<Rightarrow> real" where
  "seriesMin xs = fold (\<lambda>x m. if x < m then x else m) (tl xs) (hd xs)"

text \<open>
  The eight values written for each of accel x, y, z and magnitude, and the six written
  for each gyro axis; the source repeats the block once per series.
\<close>

definition accelSeriesFeatures :: "real list \<Rightarrow> nat \<Rightarrow> real list option" where
  "accelSeriesFeatures xs windowSize =
     (let a_mean = calculateMean xs windowSize;
          a_std = calculateStd xs windowSize a_mean;
          a_max = seriesMax xs;
          a_min = seriesMin xs
      in case calculateSkewness xs windowSize a_mean a_std of
           None \<Rightarrow> None
         | Some skew \<Rightarrow>
             (case calculateKurtosis xs windowSize a_mean a_std of
                None \<Rightarrow> None
              | Some kurt \<Rightarrow>
                  Some [a_mean, a_std, a_max, a_min, a_max - a_min, a_mean, skew, kurt]))"

definition gyroSeriesFeatures :: "real list \<Rightarrow> nat \<Rightarrow> real list" where
  "gyroSeriesFeatures xs windowSize =
     (let g_mean = calculateMean xs windowSize;
          g_std = calculateStd xs windowSize g_mean;
          g_max = seriesMax xs;
          g_min = seriesMin xs
      in [g_mean, g_std, g_max, g_min, g_max - g_min, max \<bar>g_max\<bar> \<bar>g_min\<bar>])"

text \<open>The final loop \<^verbatim>\<open>while (idx < N_FEATURES) features[idx++] = 0.0f\<close>.\<close>

definition padFeatures :: "real list \<Rightarrow> real list" where
  "padFeatures fs = fs @ replicate (N_FEATURES - length fs) 0"

text \<open>
  \<^verbatim>\<open>extractFeatures(buffer, windowSize, features)\<close>: the result is the sequence of
  values written through \<^verbatim>\<open>features[idx++]\<close>, in order. A window of fewer than two
  samples makes the source read element 0 of an empty array (undefined in C): \<open>None\<close>.
\<close>

definition extractFeatures :: "(nat \<Rightarrow> IMUData) \<Rightarrow> nat \<Rightarrow> real list option" where
  "extractFeatures buffer windowSize =
     (if windowSize < 2 then None
      else
        let ax = map (\<lambda>i. accel_x (buffer i)) [0..<windowSize];
            ay = map (\<lambda>i. accel_y (buffer i)) [0..<windowSize];
            az = map (\<lambda>i. accel_z (buffer i)) [0..<windowSize];
            am = map (\<lambda>i. accel_mag (buffer i)) [0..<windowSize];
            gx = map (\<lambda>i. gyro_x (buffer i)) [0..<windowSize];
            gy = map (\<lambda>i. gyro_y (buffer i)) [0..<windowSize];
            gz = map (\<lambda>i. gyro_z (buffer i)) [0..<windowSize];
            gm = map (\<lambda>i. sqrt (gx ! i * gx ! i + gy ! i * gy ! i + gz ! i * gz ! i))
                   [0..<windowSize];
            dt = 1 / 50;
            jerk = map (\<lambda>i. \<bar>am ! (i + 1) - am ! i\<bar> / dt) [0..<windowSize - 1];
            gm_mean = calculateMean gm windowSize;
            gm_max = seriesMax gm;
            jerk_mean = calculateMean jerk (windowSize - 1);
            jerk_std = calculateStd jerk (windowSize - 1) jerk_mean;
            jerk_max = seriesMax jerk;
            accel_energy = fold (\<lambda>x e. e + x * x) am 0;
            gyro_energy = fold (\<lambda>x e. e + x * x) gm 0;
            peak_idx = fold (\<lambda>i p. if am ! i > am ! p then i else p) [1..<windowSize] 0
        in case accelSeriesFeatures ax windowSize of None \<Rightarrow> None | Some fx \<Rightarrow>
           (case accelSeriesFeatures ay windowSize of None \<Rightarrow> None | Some fy \<Rightarrow>
           (case accelSeriesFeatures az windowSize of None \<Rightarrow> None | Some fz \<Rightarrow>
           (case accelSeriesFeatures am windowSize of None \<Rightarrow> None | Some fm \<Rightarrow>
              Some (padFeatures
                (fx @ fy @ fz @ fm
                 @ gyroSeriesFeatures gx windowSize
                 @ gyroSeriesFeatures gy windowSize
                 @ gyroSeriesFeatures gz windowSize
                 @ [gm_mean, gm_max]
                 @ [jerk_mean, jerk_max, jerk_std]
                 @ [accel_energy / real windowSize, gyro_energy / real windowSize]
                 @ [calculateZeroCrossingRate gx windowSize,
                    calculateZeroCrossingRate gy windowSize,
                    calculateZeroCrossingRate gz windowSize]
                 @ [real peak_idx / real windowSize]))))))"

section \<open>The statistics helpers in binary32\<close>

text \<open>
  The ESP32-C3 has no floating-point unit: each \<^verbatim>\<open>float\<close> operation of the helpers is
  one library call that returns the IEEE 754 binary32 result, rounded to nearest, ties
  to even. The real-valued helpers above leave that rounding out. That is harmless
  where a claim is about which values are written and how many, but the test
  \<^verbatim>\<open>std == 0\<close> of \<^verbatim>\<open>calculateSkewness\<close> and \<^verbatim>\<open>calculateKurtosis\<close> compares the rounded
  result of several hundred operations with zero. The four helpers that decide it are
  therefore embedded a second time, over binary32.

  A binary32 datum is a NaN, an infinity with its sign, or a finite number
  \<open>Finite s m e\<close> that stands for \<open>(- 1) ^ s * m * 2 ^ e\<close>, with \<open>m < 2 ^ 24\<close> and
  \<open>- 149 \<le> e \<le> 104\<close>; \<open>m < 2 ^ 23\<close> only for \<open>e = - 149\<close> (zero and the subnormals).
\<close>

datatype binary32 = NaN | Infinity bool | Finite bool nat int

fun value32 :: "binary32 \<Rightarrow> real option" where
  "value32 NaN = None"
| "value32 (Infinity s) = None"
| "value32 (Finite s m e) =
     Some ((if s then - 1 else 1) * real m * (if 0 \<le> e then 2 ^ nat e else 1 / 2 ^ nat (- e)))"

text \<open>The datum a 32-bit object representation holds: sign, 8 exponent bits, 23 fraction bits.\<close>

definition of_bits32 :: "32 word \<Rightarrow> binary32" where
  "of_bits32 w =
     (if drop_bit 23 w AND 255 = 255
      then (if w AND 8388607 = 0 then Infinity (bit w 31) else NaN)
      else if drop_bit 23 w AND 255 = 0
      then Finite (bit w 31) (unat (w AND 8388607)) (- 149)
      else Finite (bit w 31) (8388608 + unat (w AND 8388607))
             (int (unat (drop_bit 23 w AND 255)) - 150))"

text \<open>
  Rounding. \<open>round32 ng num den x\<close> is the binary32 datum nearest to
  \<open>(num / den) * 2 ^ x\<close>, with sign \<open>ng\<close>: the exponent \<open>e\<close> is the one at which the
  quotient scaled by \<open>2 ^ - e\<close> has 24 bits before the point (never below \<open>- 149\<close>), the
  significand is that scaled quotient rounded to the nearest integer, a tie going to
  the even one, and a result beyond the largest finite number is the infinity.
  \<open>nbits n\<close> is the number of binary digits of \<open>n\<close>; \<open>scaled num den e\<close> is the
  fraction \<open>num / (den * 2 ^ e)\<close> as numerator and denominator.
\<close>

fun nbits :: "nat \<Rightarrow> nat" where
  "nbits n = (if n = 0 then 0 else Suc (nbits (n div 2)))"

declare nbits.simps [simp del]

definition scaled :: "nat \<Rightarrow> nat \<Rightarrow> int \<Rightarrow> nat \<times> nat" where
  "scaled num den e = (if 0 \<le> e then (num, den * 2 ^ nat e) else (num * 2 ^ nat (- e), den))"

definition nearest_even :: "nat \<times> nat \<Rightarrow> nat" where
  "nearest_even nd =
     (if snd nd < 2 * (fst nd mod snd nd) then fst nd div snd nd + 1
      else if 2 * (fst nd mod snd nd) = snd nd \<and> odd (fst nd div snd nd)
      then fst nd div snd nd + 1
      else fst nd div snd nd)"

definition pack32 :: "bool \<Rightarrow> nat \<Rightarrow> int \<Rightarrow> binary32" where
  "pack32 ng m e =
     (if m = 2 ^ 24
      then (if 104 < e + 1 then Infinity ng else Finite ng (2 ^ 23) (e + 1))
      else (if 104 < e then Infinity ng else Finite ng m e))"

definition round_at :: "bool \<Rightarrow> nat \<Rightarrow> nat \<Rightarrow> int \<Rightarrow> int \<Rightarrow> binary32" where
  "round_at ng num den x e = pack32 ng (nearest_even (scaled num den (e - x))) e"

definition exponent_from :: "nat \<Rightarrow> nat \<Rightarrow> int \<Rightarrow> int \<Rightarrow> int" where
  "exponent_from num den x e1 =
     max (- 149)
       (if 2 ^ 24 * snd (scaled num den (e1 - x)) \<le> fst (scaled num den (e1 - x))
        then e1 + 1 else e1)"

definition round32 :: "bool \<Rightarrow> nat \<Rightarrow> nat \<Rightarrow> int \<Rightarrow> binary32" where
  "round32 ng num den x =
     (if num = 0 then Finite ng 0 (- 149)
      else round_at ng num den x
             (exponent_from num den x (int (nbits num) - int (nbits den) + x - 24)))"

text \<open>
  The operations: the exact result of the operands, rounded once. An exact zero sum is
  \<open>+0\<close> unless both operands are negative; \<^verbatim>\<open>a - b\<close> is \<^verbatim>\<open>a + (- b)\<close>.
\<close>

definition signed_of :: "bool \<Rightarrow> nat \<Rightarrow> int" where
  "signed_of ng m = (if ng then - int m else int m)"

definition round_signed :: "bool \<Rightarrow> int \<Rightarrow> int \<Rightarrow> binary32" where
  "round_signed zs t e =
     (if t = 0 then Finite zs 0 (- 149) else round32 (t < 0) (nat \<bar>t\<bar>) 1 e)"

fun neg32 :: "binary32 \<Rightarrow> binary32" where
  "neg32 NaN = NaN"
| "neg32 (Infinity s) = Infinity (\<not> s)"
| "neg32 (Finite s m e) = Finite (\<not> s) m e"

fun add32 :: "binary32 \<Rightarrow> binary32 \<Rightarrow> binary32" where
  "add32 (Finite sa ma ea) (Finite sb mb eb) =
     round_signed (sa \<and> sb)
       (signed_of sa (ma * 2 ^ nat (ea - min ea eb))
        + signed_of sb (mb * 2 ^ nat (eb - min ea eb)))
       (min ea eb)"
| "add32 (Infinity sa) (Infinity sb) = (if sa = sb then Infinity sa else NaN)"
| "add32 (Infinity sa) (Finite sb mb eb) = Infinity sa"
| "add32 (Finite sa ma ea) (Infinity sb) = Infinity sb"
| "add32 NaN b = NaN"
| "add32 a NaN = NaN"

definition sub32 :: "binary32 \<Rightarrow> binary32 \<Rightarrow> binary32" where
  "sub32 a b = add32 a (neg32 b)"

fun mul32 :: "binary32 \<Rightarrow> binary32 \<Rightarrow> binary32" where
  "mul32 (Finite sa ma ea) (Finite sb mb eb) = round32 (sa \<noteq> sb) (ma * mb) 1 (ea + eb)"
| "mul32 (Infinity sa) (Infinity sb) = Infinity (sa \<noteq> sb)"
| "mul32 (Infinity sa) (Finite sb mb eb) = (if mb = 0 then NaN else Infinity (sa \<noteq> sb))"
| "mul32 (Finite sa ma ea) (Infinity sb) = (if ma = 0 then NaN else Infinity (sa \<noteq> sb))"
| "mul32 NaN b = NaN"
| "mul32 a NaN = NaN"

fun div32 :: "binary32 \<Rightarrow> binary32 \<Rightarrow> binary32" where
  "div32 (Finite sa ma ea) (Finite sb mb eb) =
     (if mb = 0 then (if ma = 0 then NaN else Infinity (sa \<noteq> sb))
      else round32 (sa \<noteq> sb) ma mb (ea - eb))"
| "div32 (Infinity sa) (Infinity sb) = NaN"
| "div32 (Infinity sa) (Finite sb mb eb) = Infinity (sa \<noteq> sb)"
| "div32 (Finite sa ma ea) (Infinity sb) = Finite (sa \<noteq> sb) 0 (- 149)"
| "div32 NaN b = NaN"
| "div32 a NaN = NaN"

text \<open>
  The square root. \<open>isqrt x\<close> is the integer part of the root of \<open>x < 2 ^ 80\<close>, found
  bit by bit from bit 39 down. The operand \<open>m * 2 ^ e\<close> is written \<open>X * 2 ^ (2 * g)\<close>
  with \<open>X \<ge> 2 ^ 52\<close>, so the integer root \<open>R\<close> of \<open>X\<close> has at least 27 bits; one more
  bit records whether \<open>R\<close> is exact, and \<open>round32\<close> rounds the result to 24 bits.
  \<^verbatim>\<open>sqrt\<close> applied to a \<^verbatim>\<open>float\<close> and stored in a \<^verbatim>\<open>float\<close> gives this value whether the
  root is taken in single or in double precision.
\<close>

fun sqrt_bits :: "nat \<Rightarrow> nat \<Rightarrow> nat \<Rightarrow> nat" where
  "sqrt_bits k r x =
     (if k = 0 then r
      else sqrt_bits (k - 1) (if (r + 2 ^ (k - 1)) * (r + 2 ^ (k - 1)) \<le> x
                              then r + 2 ^ (k - 1) else r) x)"

declare sqrt_bits.simps [simp del]

definition isqrt :: "nat \<Rightarrow> nat" where
  "isqrt x = sqrt_bits 40 0 x"

definition sticky :: "nat \<Rightarrow> nat \<Rightarrow> nat" where
  "sticky r x = 2 * r + (if r * r = x then 0 else 1)"

fun sqrt32 :: "binary32 \<Rightarrow> binary32" where
  "sqrt32 NaN = NaN"
| "sqrt32 (Infinity s) = (if s then NaN else Infinity False)"
| "sqrt32 (Finite s m e) =
     (if m = 0 then Finite s 0 (- 149)
      else if s then NaN
      else round32 False
             (sticky (isqrt (m * 2 ^ nat (e - 2 * ((e - 52) div 2))))
                     (m * 2 ^ nat (e - 2 * ((e - 52) div 2))))
             1 ((e - 52) div 2 - 1))"

text \<open>
  The conversion of an \<^verbatim>\<open>int\<close> (the \<^verbatim>\<open>size\<close> of \<^verbatim>\<open>sum / size\<close>), the test \<^verbatim>\<open>x == 0\<close>
  (true of both zeros, false of a NaN), and the constants \<^verbatim>\<open>0\<close> and \<^verbatim>\<open>3.0f\<close>.
\<close>

definition of_int32 :: "int \<Rightarrow> binary32" where
  "of_int32 n = round32 (n < 0) (nat \<bar>n\<bar>) 1 0"

fun is_zero32 :: "binary32 \<Rightarrow> bool" where
  "is_zero32 (Finite s m e) = (m = 0)"
| "is_zero32 NaN = False"
| "is_zero32 (Infinity s) = False"

definition zero32 :: binary32 where
  "zero32 = Finite False 0 (- 149)"

definition three32 :: binary32 where
  "three32 = Finite False 12582912 (- 22)"

text \<open>
  The helpers, operation by operation as the source writes them: \<^verbatim>\<open>sum\<close> starts at
  \<open>+0\<close>, each \<^verbatim>\<open>+=\<close> is one addition, \<^verbatim>\<open>diff * diff * diff\<close> associates to the left,
  and \<^verbatim>\<open>size\<close> is converted to \<^verbatim>\<open>float\<close> for the division. The loop visits the
  first \<^verbatim>\<open>size\<close> elements of \<open>data\<close>, which holds at least that many at every call of
  \<^verbatim>\<open>extractFeatures\<close>.
\<close>

definition calculateMean32 :: "binary32 list \<Rightarrow> int \<Rightarrow> binary32" where
  "calculateMean32 data sz =
     div32 (fold (\<lambda>x sum. add32 sum x) (take (nat sz) data) zero32) (of_int32 sz)"

definition calculateStd32 :: "binary32 list \<Rightarrow> int \<Rightarrow> binary32 \<Rightarrow> binary32" where
  "calculateStd32 data sz mean =
     sqrt32 (div32 (fold (\<lambda>x sum. add32 sum (mul32 (sub32 x mean) (sub32 x mean)))
                      (take (nat sz) data) zero32)
                   (of_int32 sz))"

definition calculateSkewness32 ::
  "binary32 list \<Rightarrow> int \<Rightarrow> binary32 \<Rightarrow> binary32 \<Rightarrow> binary32" where
  "calculateSkewness32 data sz mean std =
     (if is_zero32 std then zero32
      else div32 (fold (\<lambda>x sum. let diff = div32 (sub32 x mean) std
                                 in add32 sum (mul32 (mul32 diff diff) diff))
                    (take (nat sz) data) zero32)
                 (of_int32 sz))"

definition calculateKurtosis32 ::
  "binary32 list \<Rightarrow> int \<Rightarrow> binary32 \<Rightarrow> binary32 \<Rightarrow> binary32" where
  "calculateKurtosis32 data sz mean std =
     (if is_zero32 std then zero32
      else sub32 (div32 (fold (\<lambda>x sum. let diff = div32 (sub32 x mean) std
                                        in add32 sum (mul32 (mul32 (mul32 diff diff) diff) diff))
                           (take (nat sz) data) zero32)
                        (of_int32 sz))
                 three32)"

section \<open>Threshold classifier\<close>

text \<open>\<^verbatim>\<open>classifyEvent\<close> of \<^verbatim>\<open>classifier.h\<close>, with its local constants.\<close>

definition classifyEvent :: "real list \<Rightarrow> int" where
  "classifyEvent f =
     (let accel_z_std = f ! 17;
          accel_mag_max = f ! 26;
          gyro_mag_max = f ! 51;
          jerk_mean = f ! 52;
          jerk_max = f ! 53;
          crashImpact = (accel_mag_max > 3.2);
          crashJerk = (jerk_max > 55);
          crashGyro = (gyro_mag_max > 220);
          brakeJerkBand = (jerk_mean > 6 \<and> jerk_mean < 35);
          brakeJerkMax = (jerk_max > 14 \<and> jerk_max < 55);
          brakeLowGyro = (gyro_mag_max < 140);
          brakeLowImpact = (accel_mag_max < 2.6)
      in if (crashImpact \<and> crashJerk \<and> crashGyro) \<or>
            (accel_mag_max > 3.6 \<and> jerk_max > 45 \<and> gyro_mag_max > 180)
         then CLASS_CRASH
         else if brakeJerkBand \<and> brakeJerkMax \<and> brakeLowGyro \<and> brakeLowImpact \<and>
                 accel_z_std < 0.9
         then CLASS_BRAKE
         else if gyro_mag_max > 200 \<and> accel_mag_max < 2.2
         then CLASS_TURN
         else if accel_mag_max > 2.2 \<and> accel_mag_max < 3.2 \<and> jerk_max > 18 \<and> jerk_max < 70
         then CLASS_BUMP
         else CLASS_NORMAL)"

text \<open>Arduino's \<^verbatim>\<open>constrain(amt, low, high)\<close> macro.\<close>

definition constrain :: "real \<Rightarrow> real \<Rightarrow> real \<Rightarrow> real" where
  "constrain amt low high = (if amt < low then low else if amt > high then high else amt)"

definition getClassConfidence :: "real list \<Rightarrow> int \<Rightarrow> real" where
  "getClassConfidence f c =
     (let am = f ! 26; jm = f ! 52; jx = f ! 53; gm = f ! 51
      in if c = CLASS_CRASH then
           constrain (max ((am - 3.0) / 1.8) (max ((jx - 45) / 60) ((gm - 180) / 260))) 0.2 1.0
         else if c = CLASS_BRAKE then
           constrain (0.5 * ((jm - 6) / 30) + 0.5 * ((jx - 14) / 40)) 0.2 0.95
         else if c = CLASS_TURN then constrain ((gm - 200) / 250) 0.2 0.9
         else if c = CLASS_BUMP then constrain ((am - 2.0) / 1.5) 0.2 0.85
         else 0.8)"

section \<open>Event detection and the main loop\<close>

text \<open>\<^verbatim>\<open>detectEventTrigger\<close>: the coarse trigger of the model path; it updates
  \<^verbatim>\<open>lastAccelMag\<close>.\<close>

definition detectEventTrigger :: "IMUData \<Rightarrow> state \<Rightarrow> bool \<times> state" where
  "detectEventTrigger cur s =
     (let jerk = \<bar>accel_mag cur - lastAccelMag s\<bar> * real IMU_SAMPLE_RATE
      in (accel_mag cur > 1.6 \<or> jerk > 6, s\<lparr>lastAccelMag := accel_mag cur\<rparr>))"

text \<open>
  The reconciliation of \<^verbatim>\<open>classifyAndRespondToEvent\<close> (the \<^verbatim>\<open>if\<close> chain on
  \<^verbatim>\<open>cls\<close>); \<open>t\<close> is the \<^verbatim>\<open>millis()\<close> read of \<^verbatim>\<open>fireBrakePattern\<close>.
\<close>

definition respondToEvent :: "int \<Rightarrow> real \<Rightarrow> ms \<Rightarrow> ms \<Rightarrow> state \<Rightarrow> state" where
  "respondToEvent cls conf nowMs t s =
     (if cls = CLASS_BRAKE then
        (if nowMs - lastMLBrakeMs s \<ge> ML_BRAKE_COOLDOWN_MS then
           sendEventNotification Model cls conf
             (fireBrakePattern t 900 (s\<lparr>lastMLBrakeMs := nowMs\<rparr>))
         else if currentPattern s = LED_BRAKE then s\<lparr>brakeEndTime := nowMs + 900\<rparr>
         else s)
      else if cls = CLASS_CRASH then
        (if nowMs - lastMLCrashMs s \<ge> ML_CRASH_COOLDOWN_MS \<and> currentPattern s \<noteq> LED_CRASH then
           sendEventNotification Model cls conf (fireCrashPattern (s\<lparr>lastMLCrashMs := nowMs\<rparr>))
         else s)
      else sendEventNotification Model cls conf s)"

text \<open>
  \<^verbatim>\<open>classifyAndRespondToEvent(nowMs)\<close>. The window handed to the extractor is the
  buffer in storage order, with \<^verbatim>\<open>EVENT_WINDOW_SIZE\<close> samples, so the extractor
  returns a vector (lemma \<open>extractFeatures_total\<close> below); the \<open>None\<close> branch is
  never taken.
\<close>

definition classifyAndRespondToEvent :: "ms \<Rightarrow> ms \<Rightarrow> state \<Rightarrow> state" where
  "classifyAndRespondToEvent nowMs t s =
     (case extractFeatures (imuBuffer s) EVENT_WINDOW_SIZE of
        None \<Rightarrow> s\<lparr>classifications := Suc (classifications s)\<rparr>
      | Some features \<Rightarrow>
          (let cls = classifyEvent features;
               conf = getClassConfidence features cls
           in respondToEvent cls conf nowMs t (s\<lparr>classifications := Suc (classifications s)\<rparr>)))"

text \<open>
  The three lines that store a sample in the ring buffer (in \<^verbatim>\<open>loop\<close> and in
  \<^verbatim>\<open>capturePostSamples\<close>).
\<close>

definition storeSample :: "IMUData \<Rightarrow> state \<Rightarrow> state" where
  "storeSample d s =
     (let s1 = s\<lparr>imuBuffer := (imuBuffer s)(bufferIndex s := d),
                 samplesStored := Suc (samplesStored s)\<rparr>;
          s2 = s1\<lparr>bufferIndex := (bufferIndex s1 + 1) mod EVENT_WINDOW_SIZE\<rparr>
      in if bufferIndex s2 = 0 then s2\<lparr>bufferFull := True\<rparr> else s2)"

text \<open>
  \<^verbatim>\<open>capturePostSamples(nSamples)\<close>. For the \<open>i\<close>-th sample the environment gives
  \<open>post i\<close>: the \<^verbatim>\<open>millis()\<close> values read by the calls of \<^verbatim>\<open>updateLEDs\<close> made while
  waiting for the sample interval, and the sample then read from the sensor.
\<close>

definition capturePostSamples :: "nat \<Rightarrow> (nat \<Rightarrow> ms list \<times> IMUData) \<Rightarrow> state \<Rightarrow> state" where
  "capturePostSamples nSamples post s =
     fold (\<lambda>i s. case post i of (leds, d) \<Rightarrow>
                    sendIMUData d (storeSample d (fold updateLEDs leds s)))
          [0..<nSamples] s"

text \<open>
  What one call of \<^verbatim>\<open>loop\<close> reads from its environment: \<^verbatim>\<open>millis()\<close> at its
  first line, the sensor sample, the \<^verbatim>\<open>millis()\<close> value seen by \<^verbatim>\<open>fireBrakePattern\<close>
  on the local path, the post-event capture, the \<^verbatim>\<open>millis()\<close> value seen by
  \<^verbatim>\<open>fireBrakePattern\<close> on the model path, and the one seen by the final
  \<^verbatim>\<open>updateLEDs\<close>.
\<close>

record loop_env =
  e_now :: ms
  e_sample :: IMUData
  e_fire_ms :: ms
  e_post :: "nat \<Rightarrow> ms list \<times> IMUData"
  e_ml_fire_ms :: ms
  e_led_ms :: ms

text \<open>The local fallback of \<^verbatim>\<open>loop\<close> (the block "LOCAL FALLBACK").\<close>

definition localFallback :: "ms \<Rightarrow> ms \<Rightarrow> IMUData \<Rightarrow> state \<Rightarrow> state" where
  "localFallback now t d s =
     (let jerkLocal = \<bar>accel_mag d - lastMagLocal s\<bar> * real IMU_SAMPLE_RATE;
          s1 = s\<lparr>lastMagLocal := accel_mag d\<rparr>
      in if currentPattern s1 \<noteq> LED_CRASH \<and>
            now - lastLocalCrashMs s1 \<ge> LOCAL_CRASH_COOLDOWN_MS \<and>
            (accel_mag d > 3.0 \<or> jerkLocal > 40)
         then reportLocalCrash jerkLocal (accel_mag d)
                (fireCrashPattern (s1\<lparr>lastLocalCrashMs := now\<rparr>))
         else if now - lastLocalBrakeMs s1 \<ge> LOCAL_BRAKE_COOLDOWN_MS \<and>
                 (jerkLocal > 14 \<and> accel_mag d < 2.2)
         then (let s2 = s1\<lparr>lastLocalBrakeMs := now\<rparr>
               in if currentPattern s2 = LED_BRAKE then s2\<lparr>brakeEndTime := now + 800\<rparr>
                  else reportLocalBrake jerkLocal (fireBrakePattern t 800 s2))
         else s1)"

text \<open>The model path of \<^verbatim>\<open>loop\<close> (the block "ML PATH").\<close>

definition mlPath :: "loop_env \<Rightarrow> state \<Rightarrow> state" where
  "mlPath e s =
     (if bufferFull s \<and> e_now e - lastMLAttemptMs s \<ge> ML_ATTEMPT_COOLDOWN_MS then
        (case detectEventTrigger (e_sample e) s of
           (trig, s1) \<Rightarrow>
             if trig then
               classifyAndRespondToEvent (e_now e) (e_ml_fire_ms e)
                 (capturePostSamples 25 (e_post e) (s1\<lparr>lastMLAttemptMs := e_now e\<rparr>))
             else s1)
      else s)"

text \<open>The body of the sampling \<^verbatim>\<open>if\<close> of \<^verbatim>\<open>loop\<close>: one tick.\<close>

definition tick :: "loop_env \<Rightarrow> state \<Rightarrow> state" where
  "tick e s =
     mlPath e
       (localFallback (e_now e) (e_fire_ms e) (e_sample e)
          (sendIMUData (e_sample e)
             (storeSample (e_sample e) (s\<lparr>lastSampleTime := e_now e\<rparr>))))"

definition loop :: "loop_env \<Rightarrow> state \<Rightarrow> state" where
  "loop e s =
     updateLEDs (e_led_ms e)
       (if e_now e - lastSampleTime s \<ge> SAMPLE_INTERVAL_MS then tick e s else s)"

text \<open>
  What happens to the firmware: a call of \<^verbatim>\<open>loop\<close> or one of the BLE callbacks,
  each taken as one step. The states the firmware reaches are those \<open>run\<close> gives
  from \<open>init\<close>.
\<close>

datatype input = Loop loop_env | Connect ms | Disconnect | Write string

fun step :: "input \<Rightarrow> state \<Rightarrow> state" where
  "step (Loop e) s = loop e s"
| "step (Connect t) s = onConnect t s"
| "step Disconnect s = onDisconnect s"
| "step (Write v) s = onWrite v s"

definition run :: "input list \<Rightarrow> state \<Rightarrow> state" where
  "run ins s = fold step ins s"

section \<open>BLE payloads\<close>

text \<open>
  \<^verbatim>\<open>sendIMUData\<close> and \<^verbatim>\<open>sendEventNotification\<close> build their payloads with
  \<^verbatim>\<open>memcpy\<close>, which copies the object representation: for a \<^verbatim>\<open>float\<close> and for
  the \<^verbatim>\<open>unsigned long\<close> time stamp alike, the four bytes of a 32-bit object, least
  significant byte first on the little-endian RISC-V core.
\<close>

type_synonym byte = "8 word"
type_synonym float32 = "32 word"

definition memcpy4 :: "32 word \<Rightarrow> byte list" where
  "memcpy4 w = [ucast w, ucast (drop_bit 8 w), ucast (drop_bit 16 w), ucast (drop_bit 24 w)]"

text \<open>The fields of \<^verbatim>\<open>struct IMUData\<close> as the bits they hold in memory.\<close>

record IMUDataRep =
  rep_accel_x :: float32
  rep_accel_y :: float32
  rep_accel_z :: float32
  rep_gyro_x :: float32
  rep_gyro_y :: float32
  rep_gyro_z :: float32
  rep_accel_mag :: float32
  rep_timestamp :: "32 word"

text \<open>The array \<^verbatim>\<open>p[28]\<close> of \<^verbatim>\<open>sendIMUData\<close>.\<close>

definition imuPayload :: "IMUDataRep \<Rightarrow> byte list" where
  "imuPayload d =
     memcpy4 (rep_accel_x d) @ memcpy4 (rep_accel_y d) @ memcpy4 (rep_accel_z d) @
     memcpy4 (rep_gyro_x d) @ memcpy4 (rep_gyro_y d) @ memcpy4 (rep_gyro_z d) @
     memcpy4 (rep_timestamp d)"

text \<open>The array \<^verbatim>\<open>p[5]\<close> of \<^verbatim>\<open>sendEventNotification\<close>; \<^verbatim>\<open>(uint8_t)cls\<close> keeps the
  low eight bits.\<close>

definition eventPayload :: "int \<Rightarrow> float32 \<Rightarrow> byte list" where
  "eventPayload cls conf = [word_of_int cls] @ memcpy4 conf"

text \<open>
  Modelled from the spec: the receiving side (the phone application) is not among the
  sources. The spec's words are "28 bytes = 7 little-endian 32-bit floats (accel x,y,z;
  gyro x,y,z; timestamp-as-float)" and "5 bytes = 1-byte class ordinal + 4-byte
  little-endian float confidence". \<open>le32\<close> reads four bytes as a little-endian 32-bit
  pattern; the decoders cut a frame into its slots.
\<close>

definition le32 :: "byte list \<Rightarrow> 32 word" where
  "le32 bs = ucast (bs ! 0) OR push_bit 8 (ucast (bs ! 1)) OR push_bit 16 (ucast (bs ! 2))
             OR push_bit 24 (ucast (bs ! 3))"

definition decodeTelemetry :: "byte list \<Rightarrow> float32 list option" where
  "decodeTelemetry p =
     (if length p = 28 then Some (map (\<lambda>k. le32 (take 4 (drop (4 * k) p))) [0..<7])
      else None)"

definition decodeEvent :: "byte list \<Rightarrow> (byte \<times> float32) option" where
  "decodeEvent p = (if length p = 5 then Some (p ! 0, le32 (drop 1 p)) else None)"

text \<open>
  Modelled from the spec: the number a 32-bit pattern stands for when it is read as a
  float (IEEE 754 binary32: sign bit, 8 exponent bits, 23 fraction bits); \<open>None\<close> for an
  infinity or a NaN.
\<close>

definition float32_value :: "float32 \<Rightarrow> real option" where
  "float32_value w =
     (let sgn = (if bit w 31 then - 1 else 1 :: real);
          e = unat (drop_bit 23 w AND 255);
          m = unat (w AND 8388607)
      in if e = 255 then None
         else if e = 0 then Some (sgn * real m / 2 ^ 149)
         else if e \<ge> 150 then Some (sgn * real (8388608 + m) * 2 ^ (e - 150))
         else Some (sgn * real (8388608 + m) / 2 ^ (150 - e)))"

section \<open>Notions used by the statements\<close>

text \<open>
  The instantaneous jerk the local fallback computes from a sample and the previous
  magnitude. A local channel fires on a tick when the tick stamps it: the branch that
  sets \<^verbatim>\<open>lastLocalCrashMs\<close> (or \<^verbatim>\<open>lastLocalBrakeMs\<close>) to \<^verbatim>\<open>now\<close> is the branch that
  requests the pattern and reports the event, and a stamp always differs from the old
  value, because the cooldown has elapsed.
\<close>

definition jerkLocal_of :: "IMUData \<Rightarrow> state \<Rightarrow> real" where
  "jerkLocal_of d s = \<bar>accel_mag d - lastMagLocal s\<bar> * real IMU_SAMPLE_RATE"

definition localCrashFired :: "ms \<Rightarrow> ms \<Rightarrow> IMUData \<Rightarrow> state \<Rightarrow> bool" where
  "localCrashFired now t d s =
     (lastLocalCrashMs (localFallback now t d s) \<noteq> lastLocalCrashMs s)"

definition localBrakeFired :: "ms \<Rightarrow> ms \<Rightarrow> IMUData \<Rightarrow> state \<Rightarrow> bool" where
  "localBrakeFired now t d s =
     (lastLocalBrakeMs (localFallback now t d s) \<noteq> lastLocalBrakeMs s)"

text \<open>The number of Crash notifications the local path has sent.\<close>

definition localCrashCount :: "state \<Rightarrow> nat" where
  "localCrashCount s =
     length (filter (\<lambda>ev. fst ev = Local \<and> fst (snd ev) = CLASS_CRASH) (events s))"

text \<open>
  \<open>ticksWithin t0 d ins\<close>: every call of \<^verbatim>\<open>loop\<close> among the inputs \<open>ins\<close> starts less
  than \<open>d\<close> milliseconds after \<open>t0\<close>.
\<close>

fun ticksWithin :: "ms \<Rightarrow> ms \<Rightarrow> input list \<Rightarrow> bool" where
  "ticksWithin t0 d [] = True"
| "ticksWithin t0 d (Loop e # ins) = (e_now e - t0 < d \<and> ticksWithin t0 d ins)"
| "ticksWithin t0 d (Connect t # ins) = ticksWithin t0 d ins"
| "ticksWithin t0 d (Disconnect # ins) = ticksWithin t0 d ins"
| "ticksWithin t0 d (Write v # ins) = ticksWithin t0 d ins"

text \<open>
  The part of the state the crash channel of the local path consists of, the part the
  filling of the ring buffer consists of, and the invariant of the latter: until the
  buffer is full, the write index equals the number of samples stored, fewer than 150,
  and nothing has been classified.
\<close>

definition crashChannel :: "state \<Rightarrow> ms \<times> nat" where
  "crashChannel s = (lastLocalCrashMs s, localCrashCount s)"

definition fillState :: "state \<Rightarrow> bool \<times> nat \<times> nat \<times> nat" where
  "fillState s = (bufferFull s, bufferIndex s, samplesStored s, classifications s)"

definition fillInv :: "state \<Rightarrow> bool" where
  "fillInv s =
     (if bufferFull s then EVENT_WINDOW_SIZE \<le> samplesStored s
      else bufferIndex s = samplesStored s \<and> samplesStored s < EVENT_WINDOW_SIZE \<and>
           classifications s = 0)"

section \<open>Scenarios\<close>

text \<open>
  Concrete inputs for the examples below. \<open>sample_of mag t\<close> is a sample whose
  acceleration lies on the x axis with magnitude \<open>mag\<close>, with no rotation, read at
  time \<open>t\<close>. \<open>env_at t mag\<close> is a call of \<^verbatim>\<open>loop\<close> at time \<open>t\<close> that reads such a
  sample; a post-event capture, if one runs, reads the same magnitude every 20 ms, and
  the model path then sees the clock at \<open>t + 500\<close>.
\<close>

definition sample_of :: "real \<Rightarrow> ms \<Rightarrow> IMUData" where
  "sample_of mag t = \<lparr>accel_x = mag, accel_y = 0, accel_z = 0, gyro_x = 0, gyro_y = 0,
     gyro_z = 0, accel_mag = mag, timestamp = t\<rparr>"

definition env_at :: "ms \<Rightarrow> real \<Rightarrow> loop_env" where
  "env_at t mag = \<lparr>e_now = t, e_sample = sample_of mag t, e_fire_ms = t,
     e_post = (\<lambda>i. ([], sample_of mag (t + 20 * of_nat (Suc i)))),
     e_ml_fire_ms = t + 500, e_led_ms = t\<rparr>"

text \<open>
  Three seconds after boot a 4 g sample arrives: the local fallback fires Crash.
\<close>

definition crash_showing :: state where
  "crash_showing = run [Loop (env_at 3000 4)] init"

text \<open>
  The class predicates of \<^verbatim>\<open>classifyEvent\<close>, one per \<^verbatim>\<open>if\<close>, written on the
  feature indices: 17 accel-z std, 26 accel-magnitude max, 51 gyro-magnitude max,
  52 jerk mean, 53 jerk max.
\<close>

definition crashRule :: "real list \<Rightarrow> bool" where
  "crashRule f = ((f ! 26 > 3.2 \<and> f ! 53 > 55 \<and> f ! 51 > 220) \<or>
                  (f ! 26 > 3.6 \<and> f ! 53 > 45 \<and> f ! 51 > 180))"

definition brakeRule :: "real list \<Rightarrow> bool" where
  "brakeRule f = ((f ! 52 > 6 \<and> f ! 52 < 35) \<and> (f ! 53 > 14 \<and> f ! 53 < 55) \<and>
                  f ! 51 < 140 \<and> f ! 26 < 2.6 \<and> f ! 17 < 0.9)"

definition turnRule :: "real list \<Rightarrow> bool" where
  "turnRule f = (f ! 51 > 200 \<and> f ! 26 < 2.2)"

definition bumpRule :: "real list \<Rightarrow> bool" where
  "bumpRule f = (f ! 26 > 2.2 \<and> f ! 26 < 3.2 \<and> f ! 53 > 18 \<and> f ! 53 < 70)"

text \<open>A 61-element vector with the five features the classifier reads, zero elsewhere.\<close>

definition feature_vector :: "real \<Rightarrow> real \<Rightarrow> real \<Rightarrow> real \<Rightarrow> real \<Rightarrow> real list" where
  "feature_vector z_std mag_max gyro_max j_mean j_max =
     (replicate 61 0)[17 := z_std, 26 := mag_max, 51 := gyro_max, 52 := j_mean, 53 := j_max]"

text \<open>
  Two buffers that hold the same 150 resting samples and differ beyond index 149.
\<close>

definition rest_window :: "nat \<Rightarrow> IMUData" where
  "rest_window i = sample_of 1 0"

definition rest_window_tail :: "nat \<Rightarrow> IMUData" where
  "rest_window_tail i = (if i < 150 then sample_of 1 0 else sample_of 4 0)"

text \<open>
  The \<^verbatim>\<open>accel_mag\<close> series of a window taken at rest with the helmet tilted so that
  each axis reads 0.5 g (raw 2048 at 4096 counts per g): \<^verbatim>\<open>readMPU6500\<close> stores
  \<^verbatim>\<open>sqrtf(0.75f)\<close>, the pattern \<open>0x3F5DB3D7\<close> (0.866025388), in every sample.
\<close>

definition tilted_mag :: binary32 where
  "tilted_mag = Finite False 14529495 (- 24)"

definition tilted_series :: "binary32 list" where
  "tilted_series = replicate 150 tilted_mag"

text \<open>
  A sample in memory: 1.0 g on the x axis (the pattern \<open>0x3F800000\<close>), nothing else,
  read 1000 ms after boot.
\<close>

definition frame_sample :: IMUDataRep where
  "frame_sample = \<lparr>rep_accel_x = 0x3F800000, rep_accel_y = 0, rep_accel_z = 0,
     rep_gyro_x = 0, rep_gyro_y = 0, rep_gyro_z = 0, rep_accel_mag = 0x3F800000,
     rep_timestamp = 1000\<rparr>"

text \<open>
  A ring buffer recorded while braking in pulses: the magnitude alternates between
  1.5 g and 1.0 g from sample to sample, a jerk of 25 g/s throughout. The classifier
  calls it Brake, with confidence \<open>109 / 240\<close>.
\<close>

definition brake_window :: "nat \<Rightarrow> IMUData" where
  "brake_window i = sample_of (if even i then 1.5 else 1) (20 * of_nat i)"

text \<open>
  The Crash pattern showing over such a buffer, and the Brake pattern showing over it:
  in \<open>brake_showing\<close> the link is up and the local path has fired Brake 200 ms before
  (one notification sent, end-time 3600) when the model path, at \<open>nowMs = 3000\<close>, comes to
  classify.
\<close>

definition crash_braking :: state where
  "crash_braking = crash_showing\<lparr>imuBuffer := brake_window, bufferFull := True\<rparr>"

definition brake_showing :: state where
  "brake_showing = init\<lparr>deviceConnected := True, imuBuffer := brake_window,
     bufferFull := True, lastAccelMag := 1.5, lastMagLocal := 1.5, lastLocalBrakeMs := 2800,
     lastMLAttemptMs := 3000, currentPattern := LED_BRAKE, savedPattern := LED_ARMED_RED,
     brakeEndTime := 3600, lastSampleTime := 3000, events := [(Local, CLASS_BRAKE, 0.75)],
     samplesStored := 175\<rparr>"

text \<open>
  A ride from boot that ends in braking. \<open>rest_ticks k\<close> are \<open>k\<close> calls of \<^verbatim>\<open>loop\<close>,
  20 ms apart, each reading a resting sample (1 g). \<open>braking_trace\<close> is 148 of them,
  then the phone connects, then a tick at 2980 ms reads 1.5 g (a jerk of 25 g/s).
  \<open>shaky_env\<close> is the tick after it, at 3000 ms: it reads 1.5 g again, and the 25 samples
  of its post-event capture alternate between 2 g and 1 g. \<open>shaky_window\<close> is the ring
  buffer that results, and \<open>restInv k\<close> describes the state after \<open>k\<close> resting ticks.
\<close>

definition rest_ticks :: "nat \<Rightarrow> input list" where
  "rest_ticks k = map (\<lambda>j. Loop (env_at (20 * of_nat j) 1)) [1..<Suc k]"

definition braking_trace :: "input list" where
  "braking_trace = rest_ticks 148 @ [Connect 2970, Loop (env_at 2980 1.5)]"

definition shaky_env :: loop_env where
  "shaky_env = \<lparr>e_now = 3000, e_sample = sample_of 1.5 3000, e_fire_ms = 3000,
     e_post = (\<lambda>i. ([], sample_of (if even i then 2 else 1) (3020 + 20 * of_nat i))),
     e_ml_fire_ms = 3500, e_led_ms = 3500\<rparr>"

definition shaky_window :: "nat \<Rightarrow> IMUData" where
  "shaky_window i =
     (if i < 25 then sample_of (if even i then 2 else 1) (3020 + 20 * of_nat i)
      else if i < 148 then sample_of 1 (20 * of_nat (Suc i))
      else sample_of 1.5 (20 * of_nat (Suc i)))"

definition restInv :: "nat \<Rightarrow> state \<Rightarrow> bool" where
  "restInv k s =
     (\<not> deviceConnected s \<and> bufferIndex s = k \<and> \<not> bufferFull s \<and>
      (\<forall>i<k. imuBuffer s i = sample_of 1 (20 * of_nat (Suc i))) \<and>
      lastMagLocal s = 1 \<and> lastAccelMag s = 1 \<and> lastLocalBrakeMs s = 0 \<and>
      lastLocalCrashMs s = 0 \<and> lastMLBrakeMs s = 0 \<and> lastMLCrashMs s = 0 \<and>
      lastMLAttemptMs s = 0 \<and> currentPattern s = LED_IDLE \<and>
      lastSampleTime s = 20 * of_nat k \<and> events s = [])"

section \<open>Remote commands against the Crash pattern\<close>

lemmas loop_defs = loop_def tick_def mlPath_def localFallback_def storeSample_def
  sendIMUData_def reportLocalCrash_def reportLocalBrake_def fireCrashPattern_def
  fireBrakePattern_def sendEventNotification_def updateLEDs_def brakeTimeout_def
  greenTimeout_def advanceAnimation_def detectEventTrigger_def

lemmas scenario_defs = run_def init_def env_at_def sample_of_def

lemma crash_showing_pattern: "currentPattern crash_showing = LED_CRASH"
  by (simp add: crash_showing_def loop_defs scenario_defs Let_def)

text \<open>
  C10. While the Crash pattern is showing, each of the commands LEFT_ON, RIGHT_ON,
  TURN_OFF, PARTY_ON and PARTY_OFF replaces it at once with the pattern the command
  asks for: the turn signals, the party pattern, or (for the two "off" commands) Armed
  when the link is up and Idle when it is not. None of them leaves Crash showing.
\<close>

theorem command_replaces_crash:
  assumes "currentPattern s = LED_CRASH"
  shows "currentPattern (onWrite ''LEFT_ON'' s) = LED_TURN_LEFT
       \<and> currentPattern (onWrite ''RIGHT_ON'' s) = LED_TURN_RIGHT
       \<and> currentPattern (onWrite ''TURN_OFF'' s)
           = (if deviceConnected s then LED_ARMED_RED else LED_IDLE)
       \<and> currentPattern (onWrite ''PARTY_ON'' s) = LED_PARTY
       \<and> currentPattern (onWrite ''PARTY_OFF'' s)
           = (if deviceConnected s then LED_ARMED_RED else LED_IDLE)
       \<and> (\<forall>v \<in> {''LEFT_ON'', ''RIGHT_ON'', ''TURN_OFF'', ''PARTY_ON'', ''PARTY_OFF''}.
             currentPattern (onWrite v s) \<noteq> LED_CRASH)"
  by (simp add: onWrite_def)

theorem command_replaces_crash_witness:
  "currentPattern crash_showing = LED_CRASH
   \<and> currentPattern (onWrite ''LEFT_ON'' crash_showing) = LED_TURN_LEFT
   \<and> currentPattern (onWrite ''RIGHT_ON'' crash_showing) = LED_TURN_RIGHT
   \<and> currentPattern (onWrite ''TURN_OFF'' crash_showing) = LED_IDLE
   \<and> currentPattern (onWrite ''PARTY_ON'' crash_showing) = LED_PARTY
   \<and> currentPattern (onWrite ''PARTY_OFF'' crash_showing) = LED_IDLE"
proof -
  have connected: "\<not> deviceConnected crash_showing"
    by (simp add: crash_showing_def loop_defs scenario_defs Let_def)
  from command_replaces_crash [OF crash_showing_pattern] connected crash_showing_pattern
  show ?thesis by simp
qed

section \<open>Threshold classifier: priority\<close>

lemma crash_excludes_brake: "\<not> (crashRule f \<and> brakeRule f)"
  by (auto simp: crashRule_def brakeRule_def)

lemma feature_vector_nth:
  "feature_vector a b c d e ! 17 = a" "feature_vector a b c d e ! 26 = b"
  "feature_vector a b c d e ! 51 = c" "feature_vector a b c d e ! 52 = d"
  "feature_vector a b c d e ! 53 = e" "length (feature_vector a b c d e) = 61"
  by (simp_all add: feature_vector_def)

text \<open>
  C5. For every 61-element feature vector the classifier returns the class of the first
  predicate that holds, in the order Crash, Brake, Turn, Bump, and Normal when none
  holds. In particular a vector that satisfies the Crash predicate yields Crash whatever
  else it satisfies, the Brake predicate included (in this classifier the Crash and
  Brake predicates exclude each other: lemma \<open>crash_excludes_brake\<close>).
\<close>

theorem classifyEvent_first_match:
  assumes "length f = N_FEATURES"
  shows "classifyEvent f =
           (if crashRule f then CLASS_CRASH
            else if brakeRule f then CLASS_BRAKE
            else if turnRule f then CLASS_TURN
            else if bumpRule f then CLASS_BUMP
            else CLASS_NORMAL)
       \<and> (crashRule f \<longrightarrow> classifyEvent f = CLASS_CRASH)"
  by (simp add: classifyEvent_def crashRule_def brakeRule_def turnRule_def bumpRule_def Let_def)

theorem classifyEvent_first_match_witness:
  "length (feature_vector 0 4 260 20 70) = N_FEATURES
   \<and> crashRule (feature_vector 0 4 260 20 70)
   \<and> classifyEvent (feature_vector 0 4 260 20 70) = CLASS_CRASH
   \<and> classifyEvent (feature_vector 0.1 1.5 10 20 25) = CLASS_BRAKE
   \<and> classifyEvent (feature_vector 0.1 1.5 250 2 5) = CLASS_TURN
   \<and> classifyEvent (feature_vector 0.1 2.5 10 2 30) = CLASS_BUMP
   \<and> classifyEvent (feature_vector 0 1 0 0 0) = CLASS_NORMAL"
  using classifyEvent_first_match [of "feature_vector 0 4 260 20 70"]
    classifyEvent_first_match [of "feature_vector 0.1 1.5 10 20 25"]
    classifyEvent_first_match [of "feature_vector 0.1 1.5 250 2 5"]
    classifyEvent_first_match [of "feature_vector 0.1 2.5 10 2 30"]
    classifyEvent_first_match [of "feature_vector 0 1 0 0 0"]
  by (simp add: feature_vector_nth crashRule_def brakeRule_def turnRule_def bumpRule_def)

section \<open>Feature extraction: guarded division, output length\<close>

lemma skewnessLoop_total: "std \<noteq> 0 \<Longrightarrow> \<exists>v. skewnessLoop xs mean std s = Some v"
  by (induction xs arbitrary: s) (simp_all add: fdiv_def)

lemma kurtosisLoop_total: "std \<noteq> 0 \<Longrightarrow> \<exists>v. kurtosisLoop xs mean std s = Some v"
  by (induction xs arbitrary: s) (simp_all add: fdiv_def)

lemma calculateSkewness_total: "\<exists>v. calculateSkewness data sz mean std = Some v"
proof (cases "std = 0")
  case True
  then show ?thesis by (simp add: calculateSkewness_def)
next
  case False
  from skewnessLoop_total [OF this]
  obtain v where "skewnessLoop (take sz data) mean std 0 = Some v" by blast
  with False show ?thesis by (simp add: calculateSkewness_def)
qed

lemma calculateKurtosis_total: "\<exists>v. calculateKurtosis data sz mean std = Some v"
proof (cases "std = 0")
  case True
  then show ?thesis by (simp add: calculateKurtosis_def)
next
  case False
  from kurtosisLoop_total [OF this]
  obtain v where "kurtosisLoop (take sz data) mean std 0 = Some v" by blast
  with False show ?thesis by (simp add: calculateKurtosis_def)
qed

lemma accelSeriesFeatures_total:
  "\<exists>fs. accelSeriesFeatures xs n = Some fs \<and> length fs = 8"
proof -
  obtain sk where sk: "calculateSkewness xs n (calculateMean xs n)
      (calculateStd xs n (calculateMean xs n)) = Some sk"
    using calculateSkewness_total by blast
  obtain ku where ku: "calculateKurtosis xs n (calculateMean xs n)
      (calculateStd xs n (calculateMean xs n)) = Some ku"
    using calculateKurtosis_total by blast
  show ?thesis by (simp add: accelSeriesFeatures_def Let_def sk ku)
qed

lemma gyroSeriesFeatures_length: "length (gyroSeriesFeatures xs n) = 6"
  by (simp add: gyroSeriesFeatures_def Let_def)

lemma extractFeatures_total:
  assumes "2 \<le> n"
  shows "\<exists>fs. extractFeatures b n = Some fs \<and> length fs = N_FEATURES"
proof -
  obtain fx where fx: "accelSeriesFeatures (map (\<lambda>i. accel_x (b i)) [0..<n]) n = Some fx"
      "length fx = 8"
    using accelSeriesFeatures_total by blast
  obtain fy where fy: "accelSeriesFeatures (map (\<lambda>i. accel_y (b i)) [0..<n]) n = Some fy"
      "length fy = 8"
    using accelSeriesFeatures_total by blast
  obtain fz where fz: "accelSeriesFeatures (map (\<lambda>i. accel_z (b i)) [0..<n]) n = Some fz"
      "length fz = 8"
    using accelSeriesFeatures_total by blast
  obtain fm where fm: "accelSeriesFeatures (map (\<lambda>i. accel_mag (b i)) [0..<n]) n = Some fm"
      "length fm = 8"
    using accelSeriesFeatures_total by blast
  from assms have "\<not> n < 2" by simp
  then show ?thesis
    by (simp add: extractFeatures_def Let_def fx fy fz fm padFeatures_def
        gyroSeriesFeatures_length)
qed

lemma extractFeatures_cong:
  assumes "\<forall>i<n. b1 i = b2 i"
  shows "extractFeatures b1 n = extractFeatures b2 n"
proof -
  have eq: "map (\<lambda>i. g (b1 i)) [0..<n] = map (\<lambda>i. g (b2 i)) [0..<n]"
    for g :: "IMUData \<Rightarrow> real"
    using assms by simp
  show ?thesis
    unfolding extractFeatures_def by (simp only: eq)
qed

text \<open>
  C8. \<^verbatim>\<open>extractFeatures\<close> is a function of the window alone: two buffers that agree on
  the 150 samples of the window give the same output, whatever else differs, and for
  every window the output is a vector of exactly 61 values.
\<close>

theorem extractFeatures_window_61:
  assumes "\<forall>i<EVENT_WINDOW_SIZE. b1 i = b2 i"
  shows "extractFeatures b1 EVENT_WINDOW_SIZE = extractFeatures b2 EVENT_WINDOW_SIZE
       \<and> (\<exists>fs. extractFeatures b1 EVENT_WINDOW_SIZE = Some fs \<and> length fs = N_FEATURES)"
proof -
  have "(2::nat) \<le> EVENT_WINDOW_SIZE" by simp
  from extractFeatures_total [OF this] extractFeatures_cong [OF assms]
  show ?thesis by blast
qed

theorem extractFeatures_window_61_witness:
  "extractFeatures rest_window EVENT_WINDOW_SIZE = extractFeatures rest_window_tail EVENT_WINDOW_SIZE
   \<and> rest_window 150 \<noteq> rest_window_tail 150
   \<and> (\<exists>fs. extractFeatures rest_window EVENT_WINDOW_SIZE = Some fs \<and> length fs = N_FEATURES)"
proof -
  have agree: "\<forall>i<EVENT_WINDOW_SIZE. rest_window i = rest_window_tail i"
    by (simp add: rest_window_def rest_window_tail_def)
  have differ: "rest_window 150 \<noteq> rest_window_tail 150"
    by (simp add: rest_window_def rest_window_tail_def sample_of_def)
  from extractFeatures_window_61 [OF agree] differ show ?thesis by blast
qed

section \<open>Feature extraction in binary32: a constant series\<close>

lemmas binary32_eval = round32_def round_at_def exponent_from_def pack32_def
  nearest_even_def scaled_def signed_of_def round_signed_def nbits.simps sub32_def
  of_int32_def isqrt_def sticky_def sqrt_bits.simps zero32_def three32_def

text \<open>
  Known results of the arithmetic: \<open>1 / 3\<close>, the root of 2, \<open>0.1 + 0.2\<close>, two ties
  (\<open>2 ^ 24 + 1\<close> and \<open>2 ^ 24 + 3\<close>), underflow to a subnormal, overflow, and the zeros.
\<close>

lemma binary32_examples:
  "div32 (Finite False 8388608 (- 23)) three32 = Finite False 11184811 (- 25)"
  "sqrt32 (Finite False 8388608 (- 22)) = Finite False 11863283 (- 23)"
  "add32 (Finite False 13421773 (- 27)) (Finite False 13421773 (- 26))
     = Finite False 10066330 (- 25)"
  "add32 (Finite False 8388608 1) (Finite False 8388608 (- 23)) = Finite False 8388608 1"
  "add32 (Finite False 8388609 1) (Finite False 8388608 (- 23)) = Finite False 8388610 1"
  "mul32 (Finite False 8388608 (- 149)) (Finite False 12582912 (- 25)) = Finite False 3145728 (- 149)"
  "mul32 (Finite False 16777215 104) (Finite False 8388608 (- 22)) = Infinity False"
  "sub32 tilted_mag tilted_mag = zero32"
  "add32 (Finite True 0 (- 149)) (Finite True 0 (- 149)) = Finite True 0 (- 149)"
  "of_int32 150 = Finite False 9830400 (- 16)"
  "of_bits32 0x3F5DB3D7 = tilted_mag"
  "div32 (of_int32 2048) (of_int32 4096) = Finite False 8388608 (- 24)"
  "sqrt32 (add32 (add32 (Finite False 8388608 (- 25)) (Finite False 8388608 (- 25)))
                 (Finite False 8388608 (- 25))) = tilted_mag"
  by (simp_all add: binary32_eval tilted_mag_def of_bits32_def)

lemma funpow_numeral_acc: "(f ^^ numeral k) s = (f ^^ pred_numeral k) (f s)"
  by (simp add: numeral_eq_Suc funpow_swap1)

text \<open>
  The running sum of the tilted series ends at \<open>8513385 / 2 ^ 16\<close> (129.903946), where
  150 times the element is 129.903808: the third addition is the first that rounds.
\<close>

lemma tilted_sum:
  "fold (\<lambda>x sum. add32 sum x) tilted_series zero32 = Finite False 8513385 (- 16)"
  by (simp add: tilted_series_def tilted_mag_def funpow_numeral_acc binary32_eval)

lemma tilted_mean: "calculateMean32 tilted_series 150 = Finite False 14529510 (- 24)"
  by (simp add: calculateMean32_def tilted_series_def tilted_mag_def funpow_numeral_acc
      binary32_eval)

lemma tilted_std:
  "calculateStd32 tilted_series 150 (Finite False 14529510 (- 24)) = Finite False 15728640 (- 44)"
  by (simp add: calculateStd32_def tilted_series_def tilted_mag_def funpow_numeral_acc
      binary32_eval)

lemma tilted_skewness:
  "calculateSkewness32 tilted_series 150 (Finite False 14529510 (- 24))
     (Finite False 15728640 (- 44)) = Finite True 8388608 (- 23)"
  by (simp add: calculateSkewness32_def tilted_series_def tilted_mag_def funpow_numeral_acc
      binary32_eval Let_def)

lemma tilted_kurtosis:
  "calculateKurtosis32 tilted_series 150 (Finite False 14529510 (- 24))
     (Finite False 15728640 (- 44)) = Finite True 8388608 (- 22)"
  by (simp add: calculateKurtosis32_def tilted_series_def tilted_mag_def funpow_numeral_acc
      binary32_eval Let_def)

text \<open>
  The guard itself: a standard deviation that is a zero makes both helpers return
  \<open>+0\<close> before the loop, whatever the series.
\<close>

lemma zero_std_guard32:
  "is_zero32 std \<Longrightarrow> calculateSkewness32 data sz mean std = zero32
     \<and> calculateKurtosis32 data sz mean std = zero32"
  by (simp add: calculateSkewness32_def calculateKurtosis32_def)

text \<open>
  C9. The claim is that for every series whose population standard deviation is zero
  the skewness and kurtosis features are 0, the helpers returning before the division.
  It fails on the code for the tilted window. All 150 elements of the series are the
  same number, so its population standard deviation is zero; but the running sum of
  \<^verbatim>\<open>calculateMean\<close> rounds, the mean comes out 15 units in the last place above the
  element (0.866026282), \<^verbatim>\<open>calculateStd\<close> returns 8.94e-07 and not zero, the test
  \<^verbatim>\<open>std == 0\<close> is false, the division is executed, and the helpers return a skewness
  of -1 and an excess kurtosis of -2. The variant of the header in
  \<^verbatim>\<open>Sensing/IoT/esp32_firmware\<close> tests \<^verbatim>\<open>std < 1e-6f\<close> instead and returns 0 here.
\<close>

theorem constant_series_skewness_kurtosis:
  "set tilted_series = {tilted_mag}
   \<and> length tilted_series = 150
   \<and> value32 tilted_mag = Some (14529495 / 2 ^ 24)
   \<and> calculateMean32 tilted_series 150 = Finite False 14529510 (- 24)
   \<and> value32 (Finite False 14529510 (- 24)) = Some (14529510 / 2 ^ 24)
   \<and> calculateStd32 tilted_series 150 (calculateMean32 tilted_series 150)
       = Finite False 15728640 (- 44)
   \<and> value32 (Finite False 15728640 (- 44)) = Some (15 / 2 ^ 24)
   \<and> \<not> is_zero32 (calculateStd32 tilted_series 150 (calculateMean32 tilted_series 150))
   \<and> calculateSkewness32 tilted_series 150 (calculateMean32 tilted_series 150)
         (calculateStd32 tilted_series 150 (calculateMean32 tilted_series 150))
       = Finite True 8388608 (- 23)
   \<and> calculateKurtosis32 tilted_series 150 (calculateMean32 tilted_series 150)
         (calculateStd32 tilted_series 150 (calculateMean32 tilted_series 150))
       = Finite True 8388608 (- 22)
   \<and> value32 (Finite True 8388608 (- 23)) = Some (- 1)
   \<and> value32 (Finite True 8388608 (- 22)) = Some (- 2)"
  by (simp add: tilted_mean tilted_std tilted_skewness tilted_kurtosis)
     (simp add: tilted_series_def tilted_mag_def)

section \<open>BLE payloads: round trip\<close>

lemma le32_memcpy4: "le32 (memcpy4 w) = w"
proof (rule bit_word_eqI)
  fix n :: nat
  assume n: "n < LENGTH(32)"
  consider "n < 8" | "8 \<le> n" "n < 16" | "16 \<le> n" "n < 24" | "24 \<le> n" "n < 32"
    using n by fastforce
  then show "bit (le32 (memcpy4 w)) n = bit w n"
  proof cases
    case 1
    then show ?thesis by (simp add: le32_def memcpy4_def bit_simps)
  next
    case 2
    then show ?thesis by (auto simp add: le32_def memcpy4_def bit_simps)
  next
    case 3
    then show ?thesis by (auto simp add: le32_def memcpy4_def bit_simps)
  next
    case 4
    then show ?thesis by (auto simp add: le32_def memcpy4_def bit_simps)
  qed
qed

lemma length_memcpy4: "length (memcpy4 w) = 4"
  by (simp add: memcpy4_def)

lemma decodeTelemetry_imuPayload:
  "decodeTelemetry (imuPayload d) =
     Some [rep_accel_x d, rep_accel_y d, rep_accel_z d, rep_gyro_x d, rep_gyro_y d,
           rep_gyro_z d, rep_timestamp d]"
  by (simp add: decodeTelemetry_def imuPayload_def length_memcpy4 le32_memcpy4
      upt_rec [of _ "numeral _"] upt_rec [of _ "Suc _"])

lemma decodeEvent_eventPayload:
  "decodeEvent (eventPayload cls conf) = Some (word_of_int cls, conf)"
  by (simp add: decodeEvent_def eventPayload_def memcpy4_def le32_memcpy4 [unfolded memcpy4_def])

text \<open>
  C6, as stated, fails for the seventh slot of the telemetry frame. The frame of a
  sample read 1000 ms after boot decodes to seven 32-bit patterns; the seventh, read as
  a float, is the denormal \<open>1000 / 2 ^ 149\<close>, not the time stamp 1000: the firmware
  copies the bytes of the \<^verbatim>\<open>unsigned long\<close>, it does not convert it to a float.
\<close>

theorem telemetry_timestamp_counterexample:
  "decodeTelemetry (imuPayload frame_sample) = Some [0x3F800000, 0, 0, 0, 0, 0, 1000]
   \<and> float32_value 0x3F800000 = Some 1
   \<and> unat (rep_timestamp frame_sample) = 1000
   \<and> float32_value 1000 = Some (1000 / 2 ^ 149)
   \<and> float32_value 1000 \<noteq> Some 1000"
  by (simp add: decodeTelemetry_imuPayload frame_sample_def float32_value_def Let_def)

text \<open>
  C6, amended. Decoding an encoded telemetry frame (28 bytes) gives back, bit for bit,
  the six accel and gyro floats and, in the seventh slot, the raw 32-bit millisecond
  time stamp (an unsigned little-endian integer, not a float). Decoding an encoded event
  frame (5 bytes) gives back the low byte of the class and, bit for bit, the confidence;
  for each of the five classes that byte is the class ordinal.
\<close>

theorem wire_round_trip:
  "length (imuPayload d) = 28
   \<and> decodeTelemetry (imuPayload d) =
       Some [rep_accel_x d, rep_accel_y d, rep_accel_z d, rep_gyro_x d, rep_gyro_y d,
             rep_gyro_z d, rep_timestamp d]
   \<and> length (eventPayload cls conf) = 5
   \<and> decodeEvent (eventPayload cls conf) = Some (word_of_int cls, conf)
   \<and> uint (word_of_int CLASS_BRAKE :: byte) = CLASS_BRAKE
   \<and> uint (word_of_int CLASS_BUMP :: byte) = CLASS_BUMP
   \<and> uint (word_of_int CLASS_CRASH :: byte) = CLASS_CRASH
   \<and> uint (word_of_int CLASS_NORMAL :: byte) = CLASS_NORMAL
   \<and> uint (word_of_int CLASS_TURN :: byte) = CLASS_TURN"
  by (simp add: decodeTelemetry_imuPayload decodeEvent_eventPayload)
     (simp add: imuPayload_def eventPayload_def length_memcpy4)

section \<open>Local fallback detector\<close>

lemmas local_defs = localFallback_def reportLocalCrash_def reportLocalBrake_def
  fireCrashPattern_def fireBrakePattern_def sendEventNotification_def Let_def

text \<open>
  C7, as stated, fails twice. At boot plus 20 ms a 4 g sample exceeds the G threshold,
  yet Crash does not fire, because the crash cooldown is counted from time 0. And one
  sample after a crash has fired (4 g, then back to 1 g) the jerk is 150 g/s, above even
  the crash jerk threshold of 40: Crash does not fire (its pattern is showing) and
  Brake does, so Brake has no upper jerk bound.
\<close>

theorem local_fallback_band_counterexample:
  "accel_mag (sample_of 4 20) > 3
   \<and> \<not> localCrashFired 20 20 (sample_of 4 20) init
   \<and> jerkLocal_of (sample_of 1 3020) crash_showing = 150
   \<and> \<not> localCrashFired 3020 3020 (sample_of 1 3020) crash_showing
   \<and> localBrakeFired 3020 3020 (sample_of 1 3020) crash_showing"
  by (simp add: localCrashFired_def localBrakeFired_def jerkLocal_of_def local_defs
      crash_showing_def loop_defs scenario_defs)

text \<open>
  C7, amended. On every tick the local fallback evaluates Crash first. Crash fires if
  and only if the Crash pattern is not already showing, the local crash cooldown
  (3000 ms) has elapsed, and accel_mag exceeds 3.0 g or the instantaneous jerk exceeds
  40 g/s. Brake fires if and only if Crash did not fire on this tick, the local brake
  cooldown (400 ms) has elapsed, the jerk exceeds 14 g/s (a lower bound only) and
  accel_mag is below 2.2 g. The two never fire on the same tick.
\<close>

theorem local_fallback_decision:
  "localCrashFired now t d s =
      (currentPattern s \<noteq> LED_CRASH \<and> now - lastLocalCrashMs s \<ge> LOCAL_CRASH_COOLDOWN_MS \<and>
       (accel_mag d > 3 \<or> jerkLocal_of d s > 40))
   \<and> localBrakeFired now t d s =
      (\<not> localCrashFired now t d s \<and> now - lastLocalBrakeMs s \<ge> LOCAL_BRAKE_COOLDOWN_MS \<and>
       jerkLocal_of d s > 14 \<and> accel_mag d < 2.2)
   \<and> \<not> (localCrashFired now t d s \<and> localBrakeFired now t d s)"
proof -
  have c: "now \<noteq> lastLocalCrashMs s" if "3000 \<le> now - lastLocalCrashMs s"
    using that by auto
  have b: "now \<noteq> lastLocalBrakeMs s" if "400 \<le> now - lastLocalBrakeMs s"
    using that by auto
  show ?thesis
    using c b
    by (auto simp: localCrashFired_def localBrakeFired_def jerkLocal_of_def local_defs)
qed

theorem local_fallback_decision_witness:
  "localCrashFired 3000 3000 (sample_of 4 3000) init
   \<and> \<not> localBrakeFired 3000 3000 (sample_of 4 3000) init
   \<and> \<not> localCrashFired 3000 3000 (sample_of 1.5 3000) init
   \<and> localBrakeFired 3000 3000 (sample_of 1.5 3000) init
   \<and> \<not> localCrashFired 3000 3000 (sample_of 1 3000) init
   \<and> \<not> localBrakeFired 3000 3000 (sample_of 1 3000) init"
  using local_fallback_decision [of 3000 3000 "sample_of 4 3000" init]
    local_fallback_decision [of 3000 3000 "sample_of 1.5 3000" init]
    local_fallback_decision [of 3000 3000 "sample_of 1 3000" init]
  by (simp add: jerkLocal_of_def init_def sample_of_def)

section \<open>The Crash pattern against Brake detections\<close>

lemma accelSeriesFeatures_Some:
  "\<exists>sk ku. accelSeriesFeatures xs n =
     Some [calculateMean xs n, calculateStd xs n (calculateMean xs n), seriesMax xs,
           seriesMin xs, seriesMax xs - seriesMin xs, calculateMean xs n, sk, ku]"
proof -
  obtain sk where sk: "calculateSkewness xs n (calculateMean xs n)
      (calculateStd xs n (calculateMean xs n)) = Some sk"
    using calculateSkewness_total by blast
  obtain ku where ku: "calculateKurtosis xs n (calculateMean xs n)
      (calculateStd xs n (calculateMean xs n)) = Some ku"
    using calculateKurtosis_total by blast
  show ?thesis by (simp add: accelSeriesFeatures_def Let_def sk ku)
qed

text \<open>The five features the classifier reads, as functions of the buffer.\<close>

lemma extractFeatures_key:
  assumes "2 \<le> n"
  shows "\<exists>fs. extractFeatures b n = Some fs
     \<and> fs ! 17 = calculateStd (map (\<lambda>i. accel_z (b i)) [0..<n]) n
                   (calculateMean (map (\<lambda>i. accel_z (b i)) [0..<n]) n)
     \<and> fs ! 26 = seriesMax (map (\<lambda>i. accel_mag (b i)) [0..<n])
     \<and> fs ! 51 = seriesMax (map (\<lambda>i. sqrt (gyro_x (b i) * gyro_x (b i)
                                  + gyro_y (b i) * gyro_y (b i)
                                  + gyro_z (b i) * gyro_z (b i))) [0..<n])
     \<and> fs ! 52 = calculateMean (map (\<lambda>i. \<bar>accel_mag (b (i + 1)) - accel_mag (b i)\<bar> / (1 / 50))
                                  [0..<n - 1]) (n - 1)
     \<and> fs ! 53 = seriesMax (map (\<lambda>i. \<bar>accel_mag (b (i + 1)) - accel_mag (b i)\<bar> / (1 / 50))
                              [0..<n - 1])"
proof -
  obtain fx where fx: "accelSeriesFeatures (map (\<lambda>i. accel_x (b i)) [0..<n]) n = Some fx"
      "length fx = 8"
    using accelSeriesFeatures_total by blast
  obtain fy where fy: "accelSeriesFeatures (map (\<lambda>i. accel_y (b i)) [0..<n]) n = Some fy"
      "length fy = 8"
    using accelSeriesFeatures_total by blast
  obtain skz kuz where fz: "accelSeriesFeatures (map (\<lambda>i. accel_z (b i)) [0..<n]) n = Some
     [calculateMean (map (\<lambda>i. accel_z (b i)) [0..<n]) n,
      calculateStd (map (\<lambda>i. accel_z (b i)) [0..<n]) n
        (calculateMean (map (\<lambda>i. accel_z (b i)) [0..<n]) n),
      seriesMax (map (\<lambda>i. accel_z (b i)) [0..<n]),
      seriesMin (map (\<lambda>i. accel_z (b i)) [0..<n]),
      seriesMax (map (\<lambda>i. accel_z (b i)) [0..<n]) - seriesMin (map (\<lambda>i. accel_z (b i)) [0..<n]),
      calculateMean (map (\<lambda>i. accel_z (b i)) [0..<n]) n, skz, kuz]"
    using accelSeriesFeatures_Some by blast
  obtain skm kum where fm: "accelSeriesFeatures (map (\<lambda>i. accel_mag (b i)) [0..<n]) n = Some
     [calculateMean (map (\<lambda>i. accel_mag (b i)) [0..<n]) n,
      calculateStd (map (\<lambda>i. accel_mag (b i)) [0..<n]) n
        (calculateMean (map (\<lambda>i. accel_mag (b i)) [0..<n]) n),
      seriesMax (map (\<lambda>i. accel_mag (b i)) [0..<n]),
      seriesMin (map (\<lambda>i. accel_mag (b i)) [0..<n]),
      seriesMax (map (\<lambda>i. accel_mag (b i)) [0..<n]) - seriesMin (map (\<lambda>i. accel_mag (b i)) [0..<n]),
      calculateMean (map (\<lambda>i. accel_mag (b i)) [0..<n]) n, skm, kum]"
    using accelSeriesFeatures_Some by blast
  have gm: "map (\<lambda>i. sqrt (map (\<lambda>i. gyro_x (b i)) [0..<n] ! i * map (\<lambda>i. gyro_x (b i)) [0..<n] ! i +
                          map (\<lambda>i. gyro_y (b i)) [0..<n] ! i * map (\<lambda>i. gyro_y (b i)) [0..<n] ! i +
                          map (\<lambda>i. gyro_z (b i)) [0..<n] ! i * map (\<lambda>i. gyro_z (b i)) [0..<n] ! i))
              [0..<n]
     = map (\<lambda>i. sqrt (gyro_x (b i) * gyro_x (b i) + gyro_y (b i) * gyro_y (b i)
                      + gyro_z (b i) * gyro_z (b i))) [0..<n]"
    by simp
  have jk: "map (\<lambda>i. \<bar>map (\<lambda>i. accel_mag (b i)) [0..<n] ! (i + 1)
                      - map (\<lambda>i. accel_mag (b i)) [0..<n] ! i\<bar> / (1 / 50)) [0..<n - 1]
     = map (\<lambda>i. \<bar>accel_mag (b (i + 1)) - accel_mag (b i)\<bar> / (1 / 50)) [0..<n - 1]"
    by (auto simp: less_diff_conv)
  from assms have "\<not> n < 2" by simp
  then show ?thesis
    unfolding extractFeatures_def Let_def gm jk
    by (simp add: fx fy fz fm padFeatures_def gyroSeriesFeatures_def Let_def nth_append
        del: map_eq_conv)
qed

lemmas upt_unfold = upt_rec [of _ "numeral _"] upt_rec [of _ "Suc _"]

lemma brake_window_17:
  "calculateStd (map (\<lambda>i. accel_z (brake_window i)) [0..<150]) 150
     (calculateMean (map (\<lambda>i. accel_z (brake_window i)) [0..<150]) 150) = 0"
  by (simp add: calculateStd_def calculateMean_def brake_window_def sample_of_def upt_unfold)

lemma brake_window_26: "seriesMax (map (\<lambda>i. accel_mag (brake_window i)) [0..<150]) = 1.5"
  by (simp add: seriesMax_def brake_window_def sample_of_def upt_unfold)

lemma brake_window_51:
  "seriesMax (map (\<lambda>i. sqrt (gyro_x (brake_window i) * gyro_x (brake_window i)
                        + gyro_y (brake_window i) * gyro_y (brake_window i)
                        + gyro_z (brake_window i) * gyro_z (brake_window i))) [0..<150]) = 0"
  by (simp add: seriesMax_def brake_window_def sample_of_def upt_unfold)

lemma brake_window_52:
  "calculateMean (map (\<lambda>i. \<bar>accel_mag (brake_window (i + 1)) - accel_mag (brake_window i)\<bar>
                              / (1 / 50)) [0..<150 - 1]) (150 - 1) = 25"
  by (simp add: calculateMean_def brake_window_def sample_of_def upt_unfold)

lemma brake_window_53:
  "seriesMax (map (\<lambda>i. \<bar>accel_mag (brake_window (i + 1)) - accel_mag (brake_window i)\<bar>
                          / (1 / 50)) [0..<150 - 1]) = 25"
  by (simp add: seriesMax_def brake_window_def sample_of_def upt_unfold)

lemma brake_window_class:
  "\<exists>fs. extractFeatures brake_window EVENT_WINDOW_SIZE = Some fs
        \<and> classifyEvent fs = CLASS_BRAKE
        \<and> getClassConfidence fs CLASS_BRAKE = 109 / 240"
proof -
  have "(2::nat) \<le> 150" by simp
  from extractFeatures_key [OF this, of brake_window]
  obtain fs where fs: "extractFeatures brake_window 150 = Some fs"
    "fs ! 17 = 0" "fs ! 26 = 1.5" "fs ! 51 = 0" "fs ! 52 = 25" "fs ! 53 = 25"
    unfolding brake_window_17 brake_window_26 brake_window_51 brake_window_52 brake_window_53
    by blast
  show ?thesis
    by (simp add: fs classifyEvent_def getClassConfidence_def constrain_def Let_def)
qed

text \<open>
  C1, as stated, fails on a state the firmware reaches in two ticks. Three seconds after
  boot a 4 g sample fires Crash on the local path; 20 ms later the magnitude is back at
  1 g, which is a jerk of 150 g/s with accel_mag below 2.2 g: the local brake branch
  runs, stamps its channel and replaces the Crash pattern by Brake.
\<close>

theorem crash_interrupted_counterexample:
  "currentPattern (run [Loop (env_at 3000 4)] init) = LED_CRASH
   \<and> currentPattern (run [Loop (env_at 3000 4), Loop (env_at 3020 1)] init) = LED_BRAKE
   \<and> lastLocalBrakeMs (run [Loop (env_at 3000 4), Loop (env_at 3020 1)] init) = 3020"
  by (simp add: loop_defs scenario_defs Let_def)

text \<open>
  C1, amended. While the Crash pattern is showing, a Brake detection leaves it showing
  only as long as the brake cooldown of the detecting path has not elapsed. A tick whose
  sample meets the local brake condition (jerk above 14 g/s, accel_mag below 2.2 g) with
  the local brake cooldown (400 ms) elapsed replaces Crash by Brake, and so does a
  model-path Brake classification with the model brake cooldown (1500 ms) elapsed; in
  every other case the local fallback and the model path leave Crash showing, whatever
  the model path classifies.
\<close>

theorem crash_pattern_vs_brake:
  assumes "currentPattern s = LED_CRASH"
  shows "currentPattern (localFallback now t d s) =
           (if now - lastLocalBrakeMs s \<ge> LOCAL_BRAKE_COOLDOWN_MS \<and> jerkLocal_of d s > 14 \<and>
               accel_mag d < 2.2
            then LED_BRAKE else LED_CRASH)
       \<and> (extractFeatures (imuBuffer s) EVENT_WINDOW_SIZE = Some f \<longrightarrow>
            currentPattern (classifyAndRespondToEvent nowMs t s) =
              (if classifyEvent f = CLASS_BRAKE \<and> nowMs - lastMLBrakeMs s \<ge> ML_BRAKE_COOLDOWN_MS
               then LED_BRAKE else LED_CRASH))"
  using assms
  by (auto simp: jerkLocal_of_def local_defs classifyAndRespondToEvent_def respondToEvent_def)

lemma crash_braking_fields:
  "currentPattern crash_braking = LED_CRASH" "imuBuffer crash_braking = brake_window"
  "lastMLBrakeMs crash_braking = 0"
  by (simp_all add: crash_braking_def crash_showing_def loop_defs scenario_defs Let_def)

theorem crash_pattern_vs_brake_witness:
  "currentPattern crash_showing = LED_CRASH
   \<and> currentPattern (localFallback 3020 3020 (sample_of 1 3020) crash_showing) = LED_BRAKE
   \<and> currentPattern (localFallback 3020 3020 (sample_of 4 3020) crash_showing) = LED_CRASH
   \<and> currentPattern crash_braking = LED_CRASH
   \<and> currentPattern (classifyAndRespondToEvent 3020 3520 crash_braking) = LED_BRAKE
   \<and> currentPattern (classifyAndRespondToEvent 3020 3520
         (crash_braking\<lparr>lastMLBrakeMs := 2000\<rparr>)) = LED_CRASH"
proof -
  obtain fs where fs: "extractFeatures (imuBuffer crash_braking) EVENT_WINDOW_SIZE = Some fs"
      "classifyEvent fs = CLASS_BRAKE"
    using brake_window_class by (auto simp: crash_braking_fields)
  have recent: "currentPattern (crash_braking\<lparr>lastMLBrakeMs := 2000\<rparr>) = LED_CRASH"
    by (simp add: crash_braking_fields)
  have local: "lastLocalBrakeMs crash_showing = 0" "lastMagLocal crash_showing = 4"
    by (simp_all add: crash_showing_def loop_defs scenario_defs Let_def)
  from crash_pattern_vs_brake [where s = crash_showing and now = 3020 and t = 3020
        and d = "sample_of 1 3020" and f = fs, OF crash_showing_pattern]
    crash_pattern_vs_brake [where s = crash_showing and now = 3020 and t = 3020
        and d = "sample_of 4 3020" and f = fs, OF crash_showing_pattern]
    crash_pattern_vs_brake [where s = crash_braking and f = fs and nowMs = 3020 and t = 3520,
        OF crash_braking_fields(1)]
    crash_pattern_vs_brake [where s = "crash_braking\<lparr>lastMLBrakeMs := 2000\<rparr>" and f = fs
        and nowMs = 3020 and t = 3520, OF recent]
    fs crash_showing_pattern crash_braking_fields local
  show ?thesis by (simp add: jerkLocal_of_def sample_of_def)
qed

section \<open>Brake detections while the Brake pattern is showing\<close>

text \<open>
  A ride that ends in braking, traced from boot.
\<close>

lemma restInv_init: "restInv 0 init"
  by (simp add: restInv_def init_def)

lemma advanceAnimation_idle:
  "currentPattern s = LED_IDLE \<Longrightarrow>
   \<exists>u st. advanceAnimation now s = s\<lparr>lastLEDUpdate := u, ledAnimationStep := st\<rparr>"
proof -
  assume "currentPattern s = LED_IDLE"
  then have "advanceAnimation now s = (if now - lastLEDUpdate s > 50 then s\<lparr>lastLEDUpdate := now, ledAnimationStep := ledAnimationStep s + 1\<rparr> else s\<lparr>lastLEDUpdate := lastLEDUpdate s, ledAnimationStep := ledAnimationStep s\<rparr>)"
    by (simp add: advanceAnimation_def Let_def)
  then show ?thesis by (metis (full_types))
qed

lemma updateLEDs_idle:
  assumes "currentPattern s = LED_IDLE"
  shows "\<exists>u st. updateLEDs now s = s\<lparr>lastLEDUpdate := u, ledAnimationStep := st\<rparr>"
proof -
  have "greenTimeout now (brakeTimeout now s) = s"
    using assms by (simp add: greenTimeout_def brakeTimeout_def)
  with advanceAnimation_idle [OF assms, of now] show ?thesis by (simp add: updateLEDs_def)
qed

lemma rest_tick:
  assumes inv: "restInv k s" and k: "k < 149"
  shows "restInv (Suc k) (loop (env_at (20 * of_nat (Suc k)) 1) s)"
proof -
  let ?e = "env_at (20 * of_nat (Suc k)) 1"
  let ?d = "sample_of 1 (20 * of_nat (Suc k))"
  have due: "e_now ?e - lastSampleTime s \<ge> SAMPLE_INTERVAL_MS"
    using inv by (simp add: restInv_def env_at_def algebra_simps)
  have idx: "(k + 1) mod 150 = k + 1" "k + 1 \<noteq> 0" using k by simp_all
  let ?t = "s\<lparr>lastSampleTime := 20 * of_nat (Suc k), imuBuffer := (imuBuffer s)(k := ?d),
              samplesStored := Suc (samplesStored s), bufferIndex := Suc k\<rparr>"
  have tick: "tick ?e s = ?t"
    using inv idx
    by (simp add: tick_def mlPath_def localFallback_def storeSample_def sendIMUData_def
        restInv_def env_at_def sample_of_def Let_def)
  have pat: "currentPattern ?t = LED_IDLE" using inv by (simp add: restInv_def)
  from updateLEDs_idle [OF pat, of "e_led_ms ?e"] obtain u st where
    "updateLEDs (e_led_ms ?e) ?t = ?t\<lparr>lastLEDUpdate := u, ledAnimationStep := st\<rparr>" by blast
  with due tick have "loop ?e s = ?t\<lparr>lastLEDUpdate := u, ledAnimationStep := st\<rparr>"
    by (simp add: loop_def)
  moreover have "restInv (Suc k) (?t\<lparr>lastLEDUpdate := u, ledAnimationStep := st\<rparr>)"
    using inv by (auto simp: restInv_def less_Suc_eq)
  ultimately show ?thesis by simp
qed

lemma run_snoc: "run (ins @ [x]) s = step x (run ins s)"
  by (simp add: run_def)

lemma rest_ticks_Suc:
  "rest_ticks (Suc k) = rest_ticks k @ [Loop (env_at (20 * of_nat (Suc k)) 1)]"
  by (simp add: rest_ticks_def)

lemma rest_run: "k \<le> 149 \<Longrightarrow> restInv k (run (rest_ticks k) init)"
proof (induction k)
  case 0
  then show ?case by (simp add: rest_ticks_def run_def restInv_init)
next
  case (Suc k)
  then have "restInv k (run (rest_ticks k) init)" and "k < 149" by simp_all
  from rest_tick [OF this] show ?case
    by (simp only: rest_ticks_Suc run_snoc step.simps)
qed

text \<open>The state \<open>braking_trace\<close> leads to: the Brake pattern is showing.\<close>

lemma braking_trace_state:
  "\<exists>s. restInv 148 s \<and>
     (\<exists>u st. run braking_trace init =
        s\<lparr>deviceConnected := True, connectGreenUntil := 5970,
          lastSampleTime := 2980, imuBuffer := (imuBuffer s)(148 := sample_of 1.5 2980),
          samplesStored := Suc (samplesStored s), bufferIndex := 149,
          lastMagLocal := 1.5, lastLocalBrakeMs := 2980,
          savedPattern := LED_ARMED_RED, currentPattern := LED_BRAKE, brakeEndTime := 3780,
          telemetry := telemetry s @ [sample_of 1.5 2980],
          events := [(Local, CLASS_BRAKE, 0.75)],
          lastLEDUpdate := u, ledAnimationStep := st\<rparr>)"
proof -
  let ?s = "run (rest_ticks 148) init"
  have inv: "restInv 148 ?s" by (rule rest_run) simp
  have "run braking_trace init = loop (env_at 2980 1.5) (onConnect 2970 ?s)"
    by (simp add: braking_trace_def run_def)
  also have "\<dots> = ?s\<lparr>deviceConnected := True, connectGreenUntil := 5970,
          lastSampleTime := 2980, imuBuffer := (imuBuffer ?s)(148 := sample_of 1.5 2980),
          samplesStored := Suc (samplesStored ?s), bufferIndex := 149,
          lastMagLocal := 1.5, lastLocalBrakeMs := 2980,
          savedPattern := LED_ARMED_RED, currentPattern := LED_BRAKE, brakeEndTime := 3780,
          telemetry := telemetry ?s @ [sample_of 1.5 2980],
          events := [(Local, CLASS_BRAKE, 0.75)],
          lastLEDUpdate := 2980, ledAnimationStep := 1\<rparr>"
    using inv
    by (simp add: restInv_def onConnect_def loop_defs env_at_def sample_of_def confFromJerk_def Let_def)
  finally show ?thesis using inv by blast
qed

lemma events_updateLEDs [simp]: "events (updateLEDs now s) = events s"
proof -
  have "events (advanceAnimation now s') = events s'" for s'
    by (cases "currentPattern s'") (simp_all add: advanceAnimation_def Let_def)
  then show ?thesis by (simp add: updateLEDs_def greenTimeout_def brakeTimeout_def)
qed

lemma sample_of_sel [simp]:
  "accel_mag (sample_of m t) = m" "accel_x (sample_of m t) = m" "accel_z (sample_of m t) = 0"
  "gyro_x (sample_of m t) = 0" "gyro_y (sample_of m t) = 0" "gyro_z (sample_of m t) = 0"
  by (simp_all add: sample_of_def)

lemma capturePostSamples_Suc:
  "capturePostSamples (Suc n) post s =
     (case post n of (leds, d) \<Rightarrow>
        sendIMUData d (storeSample d (fold updateLEDs leds (capturePostSamples n post s))))"
  by (simp add: capturePostSamples_def)

lemma capture_quiet:
  assumes "bufferIndex s = 0" and "\<forall>i. fst (post i) = []" and "n < 150"
  shows "bufferIndex (capturePostSamples n post s) = n
       \<and> imuBuffer (capturePostSamples n post s)
           = (\<lambda>j. if j < n then snd (post j) else imuBuffer s j)
       \<and> events (capturePostSamples n post s) = events s
       \<and> deviceConnected (capturePostSamples n post s) = deviceConnected s
       \<and> currentPattern (capturePostSamples n post s) = currentPattern s
       \<and> lastMLBrakeMs (capturePostSamples n post s) = lastMLBrakeMs s"
  using assms(3)
proof (induction n)
  case 0
  then show ?case using assms(1) by (simp add: capturePostSamples_def)
next
  case (Suc n)
  then have IH: "bufferIndex (capturePostSamples n post s) = n"
    "imuBuffer (capturePostSamples n post s)
       = (\<lambda>j. if j < n then snd (post j) else imuBuffer s j)"
    "events (capturePostSamples n post s) = events s"
    "deviceConnected (capturePostSamples n post s) = deviceConnected s"
    "currentPattern (capturePostSamples n post s) = currentPattern s"
    "lastMLBrakeMs (capturePostSamples n post s) = lastMLBrakeMs s"
    by simp_all
  obtain d where p: "post n = ([], d)"
    using assms(2) by (metis fst_conv surj_pair)
  have idx: "Suc n mod 150 = Suc n" "Suc n \<noteq> 0" using Suc.prems by simp_all
  show ?case
    unfolding capturePostSamples_Suc p
    using idx by (auto simp: IH storeSample_def sendIMUData_def Let_def fun_eq_iff p)
qed

lemma last_tick:
  assumes inv: "restInv 148 s"
    and sA: "sA = s\<lparr>deviceConnected := True, connectGreenUntil := 5970,
          lastSampleTime := 2980, imuBuffer := (imuBuffer s)(148 := sample_of 1.5 2980),
          samplesStored := Suc (samplesStored s), bufferIndex := 149,
          lastMagLocal := 1.5, lastLocalBrakeMs := 2980,
          savedPattern := LED_ARMED_RED, currentPattern := LED_BRAKE, brakeEndTime := 3780,
          telemetry := telemetry s @ [sample_of 1.5 2980],
          events := [(Local, CLASS_BRAKE, 0.75)],
          lastLEDUpdate := u, ledAnimationStep := st\<rparr>"
  shows "\<exists>sC. loop shaky_env sA = updateLEDs 3500 (classifyAndRespondToEvent 3000 3500 sC)
           \<and> deviceConnected sC \<and> currentPattern sC = LED_BRAKE
           \<and> events sC = [(Local, CLASS_BRAKE, 0.75)] \<and> lastMLBrakeMs sC = 0
           \<and> (\<forall>i<150. imuBuffer sC i = shaky_window i)"
proof -
  define d where "d = sample_of 1.5 3000"
  define sB where
    "sB = localFallback 3000 3000 d (sendIMUData d (storeSample d (sA\<lparr>lastSampleTime := 3000\<rparr>)))"
  define sC where
    "sC = capturePostSamples 25 (e_post shaky_env) (sB\<lparr>lastAccelMag := 1.5, lastMLAttemptMs := 3000\<rparr>)"
  have B: "sB = sA\<lparr>lastSampleTime := 3000, imuBuffer := (imuBuffer sA)(149 := d),
                 samplesStored := Suc (samplesStored sA), bufferIndex := 0, bufferFull := True,
                 telemetry := telemetry sA @ [d], lastMagLocal := 1.5\<rparr>"
    using inv
    by (simp add: sB_def d_def sA restInv_def localFallback_def storeSample_def
        sendIMUData_def Let_def)
  have Bf: "bufferFull sB" "lastMLAttemptMs sB = 0" "lastAccelMag sB = 1"
    using inv by (simp_all add: B sA restInv_def)
  have ml: "mlPath shaky_env sB = classifyAndRespondToEvent 3000 3500 sC"
    by (simp add: Bf sC_def mlPath_def detectEventTrigger_def shaky_env_def Let_def)
  have due: "e_now shaky_env - lastSampleTime sA \<ge> SAMPLE_INTERVAL_MS"
    by (simp add: shaky_env_def sA)
  have tk: "tick shaky_env sA = mlPath shaky_env sB"
    by (simp add: tick_def sB_def d_def shaky_env_def)
  have loop: "loop shaky_env sA = updateLEDs 3500 (classifyAndRespondToEvent 3000 3500 sC)"
    using due ml tk by (simp add: loop_def) (simp add: shaky_env_def)
  have quiet: "\<forall>i. fst (e_post shaky_env i) = []" by (simp add: shaky_env_def)
  have idx0: "bufferIndex (sB\<lparr>lastAccelMag := 1.5, lastMLAttemptMs := 3000\<rparr>) = 0"
    by (simp add: B)
  have "(25::nat) < 150" by simp
  note cap = capture_quiet [OF idx0 quiet this, folded sC_def]
  have fields: "deviceConnected sC" "currentPattern sC = LED_BRAKE"
    "events sC = [(Local, CLASS_BRAKE, 0.75)]" "lastMLBrakeMs sC = 0"
    using inv cap by (simp_all add: B sA restInv_def)
  have buf: "imuBuffer sC i = shaky_window i" if lt: "i < 150" for i
  proof -
    have old: "imuBuffer s i = sample_of 1 (20 * of_nat (Suc i))" if "i < 148"
      using inv that by (simp add: restInv_def)
    have eq: "imuBuffer sC i =
            (if i < 25 then sample_of (if even i then 2 else 1) (3020 + 20 * of_nat i)
             else if i = 148 then sample_of 1.5 2980
             else if i = 149 then d else imuBuffer s i)"
      using cap by (simp add: B sA shaky_env_def)
    consider (post) "i < 25" | (rest) "25 \<le> i" "i < 148" | (brake) "i = 148" | (last) "i = 149"
      using lt by atomize_elim arith
    then show ?thesis
    proof cases
      case post
      then show ?thesis using eq by (simp add: shaky_window_def)
    next
      case rest
      then show ?thesis using eq old by (simp add: shaky_window_def)
    next
      case brake
      then show ?thesis using eq by (simp add: shaky_window_def)
    next
      case last
      then show ?thesis using eq by (simp add: shaky_window_def d_def)
    qed
  qed
  from loop fields buf show ?thesis by blast
qed

lemma shaky_window_17:
  "calculateStd (map (\<lambda>i. accel_z (shaky_window i)) [0..<150]) 150
     (calculateMean (map (\<lambda>i. accel_z (shaky_window i)) [0..<150]) 150) = 0"
  by (simp add: calculateStd_def calculateMean_def shaky_window_def upt_unfold)

lemma shaky_window_26: "seriesMax (map (\<lambda>i. accel_mag (shaky_window i)) [0..<150]) = 2"
  by (simp add: seriesMax_def shaky_window_def upt_unfold)

lemma shaky_window_51:
  "seriesMax (map (\<lambda>i. sqrt (gyro_x (shaky_window i) * gyro_x (shaky_window i)
                        + gyro_y (shaky_window i) * gyro_y (shaky_window i)
                        + gyro_z (shaky_window i) * gyro_z (shaky_window i))) [0..<150]) = 0"
  by (simp add: seriesMax_def shaky_window_def upt_unfold)

lemma shaky_window_52:
  "calculateMean (map (\<lambda>i. \<bar>accel_mag (shaky_window (i + 1)) - accel_mag (shaky_window i)\<bar>
                              / (1 / 50)) [0..<150 - 1]) (150 - 1) = 1275 / 149"
  by (simp add: calculateMean_def shaky_window_def upt_unfold)

lemma shaky_window_53:
  "seriesMax (map (\<lambda>i. \<bar>accel_mag (shaky_window (i + 1)) - accel_mag (shaky_window i)\<bar>
                          / (1 / 50)) [0..<150 - 1]) = 50"
  by (simp add: seriesMax_def shaky_window_def upt_unfold)

lemma shaky_window_class:
  "\<exists>fs. extractFeatures shaky_window EVENT_WINDOW_SIZE = Some fs
        \<and> classifyEvent fs = CLASS_BRAKE
        \<and> getClassConfidence fs CLASS_BRAKE = 367 / 745"
proof -
  have "(2::nat) \<le> 150" by simp
  from extractFeatures_key [OF this, of shaky_window]
  obtain fs where fs: "extractFeatures shaky_window 150 = Some fs"
    "fs ! 17 = 0" "fs ! 26 = 2" "fs ! 51 = 0" "fs ! 52 = 1275 / 149" "fs ! 53 = 50"
    unfolding shaky_window_17 shaky_window_26 shaky_window_51 shaky_window_52 shaky_window_53
    by blast
  show ?thesis
    by (simp add: fs classifyEvent_def getClassConfidence_def constrain_def Let_def)
qed

text \<open>
  C2, as stated, fails on the model path, on a state the firmware reaches from boot.
  After \<open>braking_trace\<close> the Brake pattern is showing and the local path has sent its
  Brake notification. The next tick meets no local condition; the model path runs its
  first attempt, classifies the window as Brake and, its own cooldown (1500 ms) having
  elapsed, sends a second Brake notification.
\<close>

theorem brake_renotified_counterexample:
  "currentPattern (run braking_trace init) = LED_BRAKE
   \<and> events (run braking_trace init) = [(Local, CLASS_BRAKE, 0.75)]
   \<and> events (run (braking_trace @ [Loop shaky_env]) init)
       = [(Local, CLASS_BRAKE, 0.75), (Model, CLASS_BRAKE, 367 / 745)]"
proof -
  from braking_trace_state obtain s u st where inv: "restInv 148 s"
    and sA: "run braking_trace init =
        s\<lparr>deviceConnected := True, connectGreenUntil := 5970,
          lastSampleTime := 2980, imuBuffer := (imuBuffer s)(148 := sample_of 1.5 2980),
          samplesStored := Suc (samplesStored s), bufferIndex := 149,
          lastMagLocal := 1.5, lastLocalBrakeMs := 2980,
          savedPattern := LED_ARMED_RED, currentPattern := LED_BRAKE, brakeEndTime := 3780,
          telemetry := telemetry s @ [sample_of 1.5 2980],
          events := [(Local, CLASS_BRAKE, 0.75)],
          lastLEDUpdate := u, ledAnimationStep := st\<rparr>"
    by blast
  from last_tick [OF inv sA] obtain sC where
    loop: "loop shaky_env (run braking_trace init)
             = updateLEDs 3500 (classifyAndRespondToEvent 3000 3500 sC)"
    and sC: "deviceConnected sC" "currentPattern sC = LED_BRAKE"
      "events sC = [(Local, CLASS_BRAKE, 0.75)]" "lastMLBrakeMs sC = 0"
    and buf: "\<forall>i<150. imuBuffer sC i = shaky_window i"
    by blast
  from extractFeatures_cong [OF buf] shaky_window_class
  obtain fs where fs: "extractFeatures (imuBuffer sC) EVENT_WINDOW_SIZE = Some fs"
    "classifyEvent fs = CLASS_BRAKE" "getClassConfidence fs CLASS_BRAKE = 367 / 745"
    by auto
  have "events (classifyAndRespondToEvent 3000 3500 sC)
          = [(Local, CLASS_BRAKE, 0.75), (Model, CLASS_BRAKE, 367 / 745)]"
    using fs sC
    by (simp add: classifyAndRespondToEvent_def respondToEvent_def sendEventNotification_def
        fireBrakePattern_def Let_def)
  with loop have "events (run (braking_trace @ [Loop shaky_env]) init)
          = [(Local, CLASS_BRAKE, 0.75), (Model, CLASS_BRAKE, 367 / 745)]"
    by (simp add: run_snoc)
  then show ?thesis by (simp add: sA)
qed

text \<open>
  C2, amended. While the Brake pattern is showing, a local-fallback Brake detection
  sets the pattern's end-time to \<^verbatim>\<open>now + 800\<close> and sends no notification. A model-path
  Brake classification sends no notification and sets the end-time to \<^verbatim>\<open>nowMs + 900\<close>
  only while the model brake cooldown (1500 ms) has not elapsed; once it has elapsed the
  classification requests the pattern again (end-time 900 ms after the current time) and,
  when the link is up, sends one more Brake notification.
\<close>

theorem brake_debounce:
  assumes "currentPattern s = LED_BRAKE"
  shows "(localBrakeFired now t d s \<longrightarrow>
            events (localFallback now t d s) = events s
          \<and> brakeEndTime (localFallback now t d s) = now + 800
          \<and> currentPattern (localFallback now t d s) = LED_BRAKE)
       \<and> (extractFeatures (imuBuffer s) EVENT_WINDOW_SIZE = Some f \<and>
          classifyEvent f = CLASS_BRAKE \<longrightarrow>
            currentPattern (classifyAndRespondToEvent nowMs t s) = LED_BRAKE
          \<and> (if nowMs - lastMLBrakeMs s \<ge> ML_BRAKE_COOLDOWN_MS
              then events (classifyAndRespondToEvent nowMs t s) =
                     (if deviceConnected s
                      then events s @ [(Model, CLASS_BRAKE, getClassConfidence f CLASS_BRAKE)]
                      else events s)
                 \<and> brakeEndTime (classifyAndRespondToEvent nowMs t s) = t + 900
              else events (classifyAndRespondToEvent nowMs t s) = events s
                 \<and> brakeEndTime (classifyAndRespondToEvent nowMs t s) = nowMs + 900))"
  using assms
  by (auto simp: localBrakeFired_def jerkLocal_of_def local_defs classifyAndRespondToEvent_def
      respondToEvent_def)

theorem brake_debounce_witness:
  "currentPattern brake_showing = LED_BRAKE
   \<and> localBrakeFired 3200 3200 (sample_of 1 3200) brake_showing
   \<and> events (localFallback 3200 3200 (sample_of 1 3200) brake_showing) = events brake_showing
   \<and> brakeEndTime (localFallback 3200 3200 (sample_of 1 3200) brake_showing) = 4000
   \<and> events (classifyAndRespondToEvent 3000 3500 (brake_showing\<lparr>lastMLBrakeMs := 2000\<rparr>))
       = events brake_showing
   \<and> brakeEndTime (classifyAndRespondToEvent 3000 3500 (brake_showing\<lparr>lastMLBrakeMs := 2000\<rparr>))
       = 3900
   \<and> brakeEndTime (classifyAndRespondToEvent 3000 3500 brake_showing) = 4400"
proof -
  obtain fs where fs: "extractFeatures (imuBuffer brake_showing) EVENT_WINDOW_SIZE = Some fs"
      "classifyEvent fs = CLASS_BRAKE"
    using brake_window_class by (auto simp: brake_showing_def)
  have pat: "currentPattern brake_showing = LED_BRAKE"
    by (simp add: brake_showing_def)
  have fired: "localBrakeFired 3200 3200 (sample_of 1 3200) brake_showing"
    by (simp add: localBrakeFired_def local_defs brake_showing_def init_def sample_of_def)
  have stamp: "lastMLBrakeMs brake_showing = 0"
    by (simp add: brake_showing_def init_def)
  have recent: "currentPattern (brake_showing\<lparr>lastMLBrakeMs := 2000\<rparr>) = LED_BRAKE"
    by (simp add: pat)
  from brake_debounce [where s = brake_showing and now = 3200 and t = 3200
        and d = "sample_of 1 3200" and f = fs, OF pat]
    brake_debounce [where s = "brake_showing\<lparr>lastMLBrakeMs := 2000\<rparr>" and f = fs
        and nowMs = 3000 and t = 3500, OF recent]
    brake_debounce [where s = brake_showing and f = fs and nowMs = 3000 and t = 3500, OF pat]
    fs pat fired stamp
  show ?thesis by simp
qed

section \<open>The local crash channel over a run\<close>

lemma brakeTimeout_crashChannel [simp]: "crashChannel (brakeTimeout now s) = crashChannel s"
  by (simp add: crashChannel_def localCrashCount_def brakeTimeout_def)

lemma greenTimeout_crashChannel [simp]: "crashChannel (greenTimeout now s) = crashChannel s"
  by (simp add: crashChannel_def localCrashCount_def greenTimeout_def)

lemma advanceAnimation_crashChannel [simp]:
  "crashChannel (advanceAnimation now s) = crashChannel s"
  by (cases "currentPattern s")
     (simp_all add: crashChannel_def localCrashCount_def advanceAnimation_def Let_def)

lemma updateLEDs_crashChannel [simp]: "crashChannel (updateLEDs now s) = crashChannel s"
  by (simp add: updateLEDs_def)

lemma storeSample_crashChannel [simp]: "crashChannel (storeSample d s) = crashChannel s"
  by (simp add: crashChannel_def localCrashCount_def storeSample_def Let_def)

lemma sendIMUData_crashChannel [simp]: "crashChannel (sendIMUData d s) = crashChannel s"
  by (simp add: crashChannel_def localCrashCount_def sendIMUData_def)

lemma fold_updateLEDs_crashChannel [simp]:
  "crashChannel (fold updateLEDs ts s) = crashChannel s"
  by (induction ts arbitrary: s) simp_all

lemma capturePostSamples_crashChannel [simp]:
  "crashChannel (capturePostSamples n post s) = crashChannel s"
proof -
  have "crashChannel (fold (\<lambda>i s. case post i of (leds, d) \<Rightarrow>
           sendIMUData d (storeSample d (fold updateLEDs leds s))) js s) = crashChannel s" for js
    by (induction js arbitrary: s) (simp_all split: prod.split)
  then show ?thesis by (simp add: capturePostSamples_def)
qed

lemma respondToEvent_crashChannel [simp]:
  "crashChannel (respondToEvent cls conf nowMs t s) = crashChannel s"
  by (simp add: crashChannel_def localCrashCount_def respondToEvent_def
      sendEventNotification_def fireBrakePattern_def fireCrashPattern_def)

lemma classifyAndRespondToEvent_crashChannel [simp]:
  "crashChannel (classifyAndRespondToEvent nowMs t s) = crashChannel s"
proof -
  have "crashChannel (s\<lparr>classifications := Suc (classifications s)\<rparr>) = crashChannel s"
    by (simp add: crashChannel_def localCrashCount_def)
  then show ?thesis
    by (simp add: classifyAndRespondToEvent_def Let_def split: option.split)
qed

lemma mlPath_crashChannel [simp]: "crashChannel (mlPath e s) = crashChannel s"
proof -
  have a: "crashChannel (s\<lparr>lastAccelMag := x, lastMLAttemptMs := y\<rparr>) = crashChannel s" for x y
    by (simp add: crashChannel_def localCrashCount_def)
  have b: "crashChannel (s\<lparr>lastAccelMag := x\<rparr>) = crashChannel s" for x
    by (simp add: crashChannel_def localCrashCount_def)
  show ?thesis
    by (simp add: mlPath_def detectEventTrigger_def Let_def a b)
qed

lemma callbacks_crashChannel [simp]:
  "crashChannel (onConnect t s) = crashChannel s"
  "crashChannel (onDisconnect s) = crashChannel s"
  "crashChannel (onWrite v s) = crashChannel s"
  by (simp_all add: crashChannel_def localCrashCount_def onConnect_def onDisconnect_def
      onWrite_def)

lemma localFallback_cooling:
  assumes "now - lastLocalCrashMs s < LOCAL_CRASH_COOLDOWN_MS"
  shows "crashChannel (localFallback now t d s) = crashChannel s"
  using assms
  by (auto simp: crashChannel_def localCrashCount_def local_defs)

lemma loop_cooling:
  assumes "e_now e - lastLocalCrashMs s < LOCAL_CRASH_COOLDOWN_MS"
  shows "crashChannel (loop e s) = crashChannel s"
proof -
  let ?s1 = "sendIMUData (e_sample e)
               (storeSample (e_sample e) (s\<lparr>lastSampleTime := e_now e\<rparr>))"
  have "crashChannel (s\<lparr>lastSampleTime := e_now e\<rparr>) = crashChannel s"
    by (simp add: crashChannel_def localCrashCount_def)
  then have pre: "crashChannel ?s1 = crashChannel s" by simp
  then have "lastLocalCrashMs ?s1 = lastLocalCrashMs s" by (simp add: crashChannel_def)
  with assms have "e_now e - lastLocalCrashMs ?s1 < LOCAL_CRASH_COOLDOWN_MS" by simp
  from localFallback_cooling [OF this] pre
  show ?thesis by (simp add: loop_def tick_def)
qed

lemma run_cooling:
  assumes "ticksWithin (lastLocalCrashMs s) LOCAL_CRASH_COOLDOWN_MS ins"
  shows "crashChannel (run ins s) = crashChannel s"
  using assms
proof (induction ins arbitrary: s)
  case Nil
  then show ?case by (simp add: run_def)
next
  case (Cons inp ins)
  have step: "crashChannel (step inp s) = crashChannel s"
    using Cons.prems by (cases inp) (simp_all add: loop_cooling)
  then have "lastLocalCrashMs (step inp s) = lastLocalCrashMs s"
    by (simp add: crashChannel_def)
  with Cons.prems
  have "ticksWithin (lastLocalCrashMs (step inp s)) LOCAL_CRASH_COOLDOWN_MS ins"
    by (cases inp) simp_all
  from Cons.IH [OF this] step show ?case by (simp add: run_def)
qed

lemma loop_fires_crash:
  assumes "deviceConnected s" and "currentPattern s \<noteq> LED_CRASH"
    and "e_now e - lastSampleTime s \<ge> SAMPLE_INTERVAL_MS"
    and "e_now e - lastLocalCrashMs s \<ge> LOCAL_CRASH_COOLDOWN_MS"
    and "accel_mag (e_sample e) > 3 \<or> jerkLocal_of (e_sample e) s > 40"
  shows "crashChannel (loop e s) = (e_now e, Suc (localCrashCount s))"
proof -
  let ?s1 = "sendIMUData (e_sample e)
               (storeSample (e_sample e) (s\<lparr>lastSampleTime := e_now e\<rparr>))"
  have "crashChannel (localFallback (e_now e) (e_fire_ms e) (e_sample e) ?s1)
          = (e_now e, Suc (localCrashCount s))"
    using assms
    by (auto simp: crashChannel_def localCrashCount_def local_defs jerkLocal_of_def
        sendIMUData_def storeSample_def)
  with assms(3) show ?thesis by (simp add: loop_def tick_def)
qed

text \<open>
  C3, as stated, fails in two ways. With the link up, two consecutive ticks 20 and 40 ms
  after boot read 4 g and so meet the crash condition, but the cooldown is counted from
  time 0: nothing fires, the channel is not stamped and no notification is sent. With
  the link down, the same two samples 3000 and 3020 ms after boot fire once and stamp
  the channel, and still no notification is sent.
\<close>

theorem local_crash_silent_counterexample:
  "accel_mag (e_sample (env_at 20 4)) > 3
   \<and> accel_mag (e_sample (env_at 40 4)) > 3
   \<and> deviceConnected (run [Connect 10, Loop (env_at 20 4), Loop (env_at 40 4)] init)
   \<and> lastLocalCrashMs (run [Connect 10, Loop (env_at 20 4), Loop (env_at 40 4)] init) = 0
   \<and> events (run [Connect 10, Loop (env_at 20 4), Loop (env_at 40 4)] init) = []
   \<and> lastLocalCrashMs (run [Loop (env_at 3000 4), Loop (env_at 3020 4)] init) = 3000
   \<and> events (run [Loop (env_at 3000 4), Loop (env_at 3020 4)] init) = []"
  by (simp add: loop_defs scenario_defs onConnect_def Let_def)

text \<open>
  C3, amended. Let the link be up, the Crash pattern not showing and the local crash
  cooldown (3000 ms) elapsed at a tick whose sample meets the local-crash condition.
  That tick sends exactly one Crash notification from the local path and stamps the
  channel with its time. After it, whatever happens (ticks with any samples, the
  condition repeated or not, commands, connects and disconnects), as long as every tick
  starts less than 3000 ms after the first, the local path sends no further Crash
  notification and the stamp stays.
\<close>

theorem local_crash_once:
  assumes "deviceConnected s" and "currentPattern s \<noteq> LED_CRASH"
    and "e_now e - lastSampleTime s \<ge> SAMPLE_INTERVAL_MS"
    and "e_now e - lastLocalCrashMs s \<ge> LOCAL_CRASH_COOLDOWN_MS"
    and "accel_mag (e_sample e) > 3 \<or> jerkLocal_of (e_sample e) s > 40"
    and "ticksWithin (e_now e) LOCAL_CRASH_COOLDOWN_MS ins"
  shows "localCrashCount (loop e s) = localCrashCount s + 1
       \<and> lastLocalCrashMs (loop e s) = e_now e
       \<and> localCrashCount (run ins (loop e s)) = localCrashCount s + 1
       \<and> lastLocalCrashMs (run ins (loop e s)) = e_now e"
proof -
  from loop_fires_crash [OF assms(1-5)]
  have first: "crashChannel (loop e s) = (e_now e, Suc (localCrashCount s))" .
  then have "lastLocalCrashMs (loop e s) = e_now e" by (simp add: crashChannel_def)
  with assms(6)
  have "ticksWithin (lastLocalCrashMs (loop e s)) LOCAL_CRASH_COOLDOWN_MS ins" by simp
  from run_cooling [OF this] first show ?thesis by (simp add: crashChannel_def)
qed

theorem local_crash_once_witness:
  "localCrashCount (onConnect 10 init) = 0
   \<and> events (loop (env_at 3000 4) (onConnect 10 init)) = [(Local, CLASS_CRASH, 1)]
   \<and> localCrashCount (run [Loop (env_at 3020 4), Loop (env_at 3040 5)]
         (loop (env_at 3000 4) (onConnect 10 init))) = 1
   \<and> lastLocalCrashMs (run [Loop (env_at 3020 4), Loop (env_at 3040 5)]
         (loop (env_at 3000 4) (onConnect 10 init))) = 3000"
proof -
  have ev: "events (loop (env_at 3000 4) (onConnect 10 init)) = [(Local, CLASS_CRASH, 1)]"
    by (simp add: loop_defs scenario_defs onConnect_def confFromJerk_def Let_def)
  have pre: "deviceConnected (onConnect 10 init)"
    "currentPattern (onConnect 10 init) \<noteq> LED_CRASH"
    "e_now (env_at 3000 4) - lastSampleTime (onConnect 10 init) \<ge> SAMPLE_INTERVAL_MS"
    "e_now (env_at 3000 4) - lastLocalCrashMs (onConnect 10 init) \<ge> LOCAL_CRASH_COOLDOWN_MS"
    "accel_mag (e_sample (env_at 3000 4)) > 3
       \<or> jerkLocal_of (e_sample (env_at 3000 4)) (onConnect 10 init) > 40"
    "ticksWithin (e_now (env_at 3000 4)) LOCAL_CRASH_COOLDOWN_MS
       [Loop (env_at 3020 4), Loop (env_at 3040 5)]"
    "localCrashCount (onConnect 10 init) = 0"
    by (simp_all add: onConnect_def scenario_defs localCrashCount_def)
  from local_crash_once [OF pre(1-6)] pre(7) ev show ?thesis by (simp add: env_at_def)
qed

section \<open>Filling the ring buffer\<close>

lemma fillInv_fillState: "fillState s' = fillState s \<Longrightarrow> fillInv s' = fillInv s"
  by (simp add: fillInv_def fillState_def)

lemma fillInv_init: "fillInv init"
  by (simp add: fillInv_def init_def)

lemma ring_index_step:
  "n < 150 \<Longrightarrow> (n + 1) mod 150 = (if n = 149 then 0 else n + 1)" for n :: nat
  by simp

lemma storeSample_fillInv: "fillInv s \<Longrightarrow> fillInv (storeSample d s)"
proof (cases "bufferFull s")
  case True
  assume "fillInv s"
  with True show ?thesis by (simp add: fillInv_def storeSample_def Let_def)
next
  case False
  assume "fillInv s"
  with False
  have *: "bufferIndex s = samplesStored s" "samplesStored s < 150" "classifications s = 0"
    by (simp_all add: fillInv_def)
  from * False show ?thesis
    by (simp add: fillInv_def storeSample_def Let_def ring_index_step del: One_nat_def)
qed

lemma brakeTimeout_fillState [simp]: "fillState (brakeTimeout now s) = fillState s"
  by (simp add: fillState_def brakeTimeout_def)

lemma greenTimeout_fillState [simp]: "fillState (greenTimeout now s) = fillState s"
  by (simp add: fillState_def greenTimeout_def)

lemma advanceAnimation_fillState [simp]: "fillState (advanceAnimation now s) = fillState s"
  by (cases "currentPattern s") (simp_all add: fillState_def advanceAnimation_def Let_def)

lemma updateLEDs_fillState [simp]: "fillState (updateLEDs now s) = fillState s"
  by (simp add: updateLEDs_def)

lemma fold_updateLEDs_fillState [simp]: "fillState (fold updateLEDs ts s) = fillState s"
  by (induction ts arbitrary: s) simp_all

lemma sendIMUData_fillState [simp]: "fillState (sendIMUData d s) = fillState s"
  by (simp add: fillState_def sendIMUData_def)

lemma localFallback_fillState [simp]: "fillState (localFallback now t d s) = fillState s"
  by (simp add: fillState_def local_defs)

lemma callbacks_fillState [simp]:
  "fillState (onConnect t s) = fillState s"
  "fillState (onDisconnect s) = fillState s"
  "fillState (onWrite v s) = fillState s"
  by (simp_all add: fillState_def onConnect_def onDisconnect_def onWrite_def)

lemma respondToEvent_fillState [simp]:
  "fillState (respondToEvent cls conf nowMs t s) = fillState s"
  by (simp add: fillState_def respondToEvent_def sendEventNotification_def
      fireBrakePattern_def fireCrashPattern_def)

lemma classifyAndRespondToEvent_full:
  assumes full: "bufferFull s" and inv: "fillInv s"
  shows "fillInv (classifyAndRespondToEvent nowMs t s)"
proof -
  let ?s1 = "s\<lparr>classifications := Suc (classifications s)\<rparr>"
  have s1: "fillInv ?s1" using full inv by (auto simp: fillInv_def split: if_splits)
  have "fillInv (respondToEvent cls conf nowMs t ?s1)" for cls conf
    using s1 fillInv_fillState [OF respondToEvent_fillState] by blast
  with s1 show ?thesis
    by (simp add: classifyAndRespondToEvent_def Let_def split: option.split)
qed

lemma capture_step_full:
  assumes full: "bufferFull s" and inv: "fillInv s"
  shows "bufferFull (sendIMUData d (storeSample d (fold updateLEDs leds s))) \<and>
         fillInv (sendIMUData d (storeSample d (fold updateLEDs leds s)))"
proof -
  let ?s1 = "fold updateLEDs leds s"
  have fs: "fillState ?s1 = fillState s" by simp
  then have full1: "bufferFull ?s1" using full by (simp add: fillState_def)
  have inv1: "fillInv ?s1" using inv fillInv_fillState [OF fs] by simp
  have full2: "bufferFull (storeSample d ?s1)"
    using full1 by (simp add: storeSample_def Let_def)
  have inv2: "fillInv (storeSample d ?s1)" using inv1 by (rule storeSample_fillInv)
  have fs3: "fillState (sendIMUData d (storeSample d ?s1)) = fillState (storeSample d ?s1)"
    by simp
  from fs3 full2 have "bufferFull (sendIMUData d (storeSample d ?s1))"
    by (simp add: fillState_def)
  moreover from inv2 fillInv_fillState [OF fs3]
  have "fillInv (sendIMUData d (storeSample d ?s1))" by simp
  ultimately show ?thesis by simp
qed

lemma capturePostSamples_full:
  assumes "bufferFull s" and "fillInv s"
  shows "bufferFull (capturePostSamples n post s) \<and> fillInv (capturePostSamples n post s)"
proof -
  have "bufferFull s \<Longrightarrow> fillInv s \<Longrightarrow>
        bufferFull (fold (\<lambda>i s. case post i of (leds, d) \<Rightarrow>
                    sendIMUData d (storeSample d (fold updateLEDs leds s))) js s) \<and>
        fillInv (fold (\<lambda>i s. case post i of (leds, d) \<Rightarrow>
                    sendIMUData d (storeSample d (fold updateLEDs leds s))) js s)" for js
  proof (induction js arbitrary: s)
    case Nil
    then show ?case by simp
  next
    case (Cons i js)
    obtain leds d where p: "post i = (leds, d)" by (cases "post i")
    from capture_step_full [OF Cons.prems, of d leds] Cons.IH
    show ?case by (simp add: p)
  qed
  with assms show ?thesis by (simp add: capturePostSamples_def)
qed

lemma mlPath_fillInv:
  assumes inv: "fillInv s"
  shows "fillInv (mlPath e s)"
proof (cases "bufferFull s \<and> e_now e - lastMLAttemptMs s \<ge> ML_ATTEMPT_COOLDOWN_MS")
  case False
  then have "mlPath e s = s" by (auto simp: mlPath_def)
  with inv show ?thesis by simp
next
  case True
  let ?s1 = "s\<lparr>lastAccelMag := accel_mag (e_sample e)\<rparr>"
  let ?s2 = "?s1\<lparr>lastMLAttemptMs := e_now e\<rparr>"
  have f1: "fillState ?s1 = fillState s" "fillState ?s2 = fillState s"
    by (simp_all add: fillState_def)
  have inv1: "fillInv ?s1" "fillInv ?s2" using inv f1 [THEN fillInv_fillState] by simp_all
  have full2: "bufferFull ?s2" using True by simp
  from capturePostSamples_full [OF full2 inv1(2)]
  have "fillInv (classifyAndRespondToEvent (e_now e) (e_ml_fire_ms e)
           (capturePostSamples 25 (e_post e) ?s2))"
    by (simp add: classifyAndRespondToEvent_full)
  with True inv1 show ?thesis
    by (simp add: mlPath_def detectEventTrigger_def Let_def)
qed

lemma loop_fillInv:
  assumes inv: "fillInv s"
  shows "fillInv (loop e s)"
proof -
  have "fillState (s\<lparr>lastSampleTime := e_now e\<rparr>) = fillState s"
    by (simp add: fillState_def)
  from fillInv_fillState [OF this] inv have "fillInv (s\<lparr>lastSampleTime := e_now e\<rparr>)"
    by simp
  then have "fillInv (storeSample (e_sample e) (s\<lparr>lastSampleTime := e_now e\<rparr>))"
    by (rule storeSample_fillInv)
  then have "fillInv (localFallback (e_now e) (e_fire_ms e) (e_sample e)
      (sendIMUData (e_sample e) (storeSample (e_sample e) (s\<lparr>lastSampleTime := e_now e\<rparr>))))"
    using fillInv_fillState [OF localFallback_fillState]
      fillInv_fillState [OF sendIMUData_fillState]
    by blast
  then have "fillInv (tick e s)" by (simp add: tick_def mlPath_fillInv)
  with inv
  have "fillInv (if e_now e - lastSampleTime s \<ge> SAMPLE_INTERVAL_MS then tick e s else s)"
    by simp
  then show ?thesis using fillInv_fillState [OF updateLEDs_fillState] by (simp add: loop_def)
qed

lemma step_fillInv: "fillInv s \<Longrightarrow> fillInv (step inp s)"
  using fillInv_fillState [OF callbacks_fillState(1)]
    fillInv_fillState [OF callbacks_fillState(2)]
    fillInv_fillState [OF callbacks_fillState(3)]
  by (cases inp) (simp_all add: loop_fillInv)

lemma run_fillInv: "fillInv s \<Longrightarrow> fillInv (run ins s)"
  by (induction ins arbitrary: s) (simp_all add: run_def step_fillInv)

text \<open>
  C4. In every state the firmware reaches from boot, if fewer than 150 samples have
  been stored then the buffer-full flag is false and no classification has been
  attempted (and the write index equals the number of samples stored). So the first
  classification attempt comes only after 150 samples have been stored.
\<close>

theorem no_classification_before_full:
  assumes "samplesStored (run ins init) < EVENT_WINDOW_SIZE"
  shows "\<not> bufferFull (run ins init) \<and> classifications (run ins init) = 0
       \<and> bufferIndex (run ins init) = samplesStored (run ins init)"
  using run_fillInv [OF fillInv_init, of ins] assms
  by (auto simp: fillInv_def split: if_splits)

theorem no_classification_before_full_witness:
  "samplesStored (run [Loop (env_at 3000 4), Loop (env_at 3020 1)] init) = 2
   \<and> \<not> bufferFull (run [Loop (env_at 3000 4), Loop (env_at 3020 1)] init)
   \<and> classifications (run [Loop (env_at 3000 4), Loop (env_at 3020 1)] init) = 0
   \<and> bufferIndex (run [Loop (env_at 3000 4), Loop (env_at 3020 1)] init) = 2"
proof -
  have n: "samplesStored (run [Loop (env_at 3000 4), Loop (env_at 3020 1)] init) = 2"
    by (simp add: loop_defs scenario_defs Let_def)
  then have "samplesStored (run [Loop (env_at 3000 4), Loop (env_at 3020 1)] init)
               < EVENT_WINDOW_SIZE"
    by simp
  from no_classification_before_full [OF this] n show ?thesis by simp
qed

end
